theory Spec2Isabelle
  imports Complex_Main "HOL-Library.Log_Nat"
begin

section \<open>Entity model (types.ts)\<close>

text \<open>
  The enums of \<^verbatim>\<open>types.ts\<close> are datatypes. The authenticity status is a union of
  string literals in the source; the handlers of \<^verbatim>\<open>App.tsx\<close> also store
  \<^verbatim>\<open>'Verified'\<close> and \<^verbatim>\<open>'Spam'\<close> in it, so the datatype has all five values.
  A \<^verbatim>\<open>Date\<close> is its millisecond timestamp (\<^verbatim>\<open>getTime()\<close>), an optional
  field an \<open>option\<close> (\<open>None\<close> for \<^verbatim>\<open>undefined\<close>). Identifiers, votes and points
  are JavaScript numbers holding integers.
\<close>

datatype Role = USER | ADMIN

datatype Badge = RECYCLING_ROOKIE | WASTE_WARRIOR | COMPOST_CHAMPION | COMMUNITY_VOICE | INFLUENCER

datatype Status = PENDING | IN_PROGRESS | RESOLVED

datatype Authenticity = Unverified | LikelyAuthentic | PotentialSpam | Verified | Spam

record User =
  id_u :: int
  name :: string
  email :: string
  password :: "string option"
  role :: Role
  points :: int
  badges :: "Badge list"

record Complaint =
  id_c :: int
  userId :: int
  userName :: string
  location :: string
  description :: string
  status :: Status
  createdAt :: int
  resolvedAt :: "int option"
  imageUrl :: "string option"
  votes :: int
  isPublic :: bool
  authenticityStatus :: "Authenticity option"
  deletedAt :: "int option"

section \<open>Complaint lifecycle (App.tsx)\<close>

text \<open>
  Every handler is a state update \<^verbatim>\<open>setComplaints(prev => ...)\<close>: the model takes
  \<open>prev\<close> and returns the new collection. Clock reads (\<^verbatim>\<open>Date.now()\<close>,
  \<^verbatim>\<open>new Date()\<close>) are parameters. \<^verbatim>\<open>handleAddComplaint\<close> reads the clock twice,
  once for the id and once for \<^verbatim>\<open>createdAt\<close>; its optional parameters carry their
  default values.
\<close>

definition handleAddComplaint ::
  "User option \<Rightarrow> int \<Rightarrow> int \<Rightarrow> string \<Rightarrow> string \<Rightarrow> string option \<Rightarrow> bool option
     \<Rightarrow> Authenticity option \<Rightarrow> Complaint list \<Rightarrow> Complaint list" where
  "handleAddComplaint currentUser dateNow newDate loc descr img pub auth prev =
     (case currentUser of
        None \<Rightarrow> prev
      | Some u \<Rightarrow>
          \<lparr> id_c = dateNow, userId = id_u u, userName = name u, location = loc,
            description = descr, status = PENDING, createdAt = newDate, resolvedAt = None,
            imageUrl = img, votes = 0,
            isPublic = (case pub of None \<Rightarrow> True | Some b \<Rightarrow> b),
            authenticityStatus = Some (case auth of None \<Rightarrow> Unverified | Some a \<Rightarrow> a),
            deletedAt = None \<rparr> # prev)"

definition handleVote :: "int \<Rightarrow> Complaint list \<Rightarrow> Complaint list" where
  "handleVote complaintId prev =
     map (\<lambda>c. if id_c c = complaintId then c\<lparr>votes := votes c + 1\<rparr> else c) prev"

definition handleUpdateComplaintStatus :: "int \<Rightarrow> int \<Rightarrow> Status \<Rightarrow> Complaint list \<Rightarrow> Complaint list" where
  "handleUpdateComplaintStatus newDate complaintId st prev =
     map (\<lambda>c. if id_c c = complaintId
              then c\<lparr>status := st, resolvedAt := (if st = RESOLVED then Some newDate else None)\<rparr>
              else c) prev"

definition handleDeleteComplaint :: "int \<Rightarrow> int \<Rightarrow> Complaint list \<Rightarrow> Complaint list" where
  "handleDeleteComplaint newDate complaintId prev =
     map (\<lambda>c. if id_c c = complaintId then c\<lparr>deletedAt := Some newDate\<rparr> else c) prev"

definition handleRestoreComplaint :: "int \<Rightarrow> Complaint list \<Rightarrow> Complaint list" where
  "handleRestoreComplaint complaintId prev =
     map (\<lambda>c. if id_c c = complaintId then c\<lparr>deletedAt := None\<rparr> else c) prev"

definition handlePermanentDelete :: "int \<Rightarrow> Complaint list \<Rightarrow> Complaint list" where
  "handlePermanentDelete complaintId prev = filter (\<lambda>c. id_c c \<noteq> complaintId) prev"

text \<open>
  \<^verbatim>\<open>handleVerifyAuthenticity\<close> looks the complaint up in the \<^verbatim>\<open>complaints\<close> value its
  closure holds, returns when there is none, awaits the gateway on the description and
  image it found, and then maps over \<open>prev\<close>, the collection at the time of the update.
  The gateway is the parameter \<open>verify\<close>.
\<close>

definition handleVerifyAuthenticity ::
  "(string \<Rightarrow> string option \<Rightarrow> Authenticity) \<Rightarrow> Complaint list \<Rightarrow> int \<Rightarrow> Complaint list \<Rightarrow> Complaint list" where
  "handleVerifyAuthenticity verify complaints complaintId prev =
     (case find (\<lambda>c. id_c c = complaintId) complaints of
        None \<Rightarrow> prev
      | Some complaint \<Rightarrow>
          (let result = verify (description complaint) (imageUrl complaint)
           in map (\<lambda>c. if id_c c = complaintId then c\<lparr>authenticityStatus := Some result\<rparr> else c) prev))"

definition handleAdminVerify :: "int \<Rightarrow> Authenticity \<Rightarrow> Complaint list \<Rightarrow> Complaint list" where
  "handleAdminVerify complaintId st prev =
     map (\<lambda>c. if id_c c = complaintId then c\<lparr>authenticityStatus := Some st\<rparr> else c) prev"

text \<open>The seed collection of \<^verbatim>\<open>App.tsx\<close>, with the clock read \<open>t\<close> of its initialisation.\<close>

definition day_ms :: int where
  "day_ms = 24 * 60 * 60 * 1000"

definition initialComplaints :: "int \<Rightarrow> Complaint list" where
  "initialComplaints t =
    [ \<lparr> id_c = 1, userId = 1, userName = ''Alice'', location = ''Library, 2nd Floor'',
        description = ''Overflowing recycling bin.'', status = RESOLVED,
        createdAt = t - 2 * day_ms, resolvedAt = Some (t - 1 * day_ms),
        imageUrl = Some ''https://images.unsplash.com/photo-1599664223843-93498b115a38?q=80&w=2070&auto=format&fit=crop'',
        votes = 12, isPublic = True, authenticityStatus = Some Verified, deletedAt = None \<rparr>,
      \<lparr> id_c = 2, userId = 1, userName = ''Alice'', location = ''Cafeteria'',
        description = ''General waste bin is full and smelly.'', status = IN_PROGRESS,
        createdAt = t - 1 * day_ms, resolvedAt = None, imageUrl = None,
        votes = 5, isPublic = True, authenticityStatus = Some LikelyAuthentic, deletedAt = None \<rparr>,
      \<lparr> id_c = 3, userId = 1, userName = ''Alice'', location = ''Dorm Block A'',
        description = ''Broken glass bottle on the pavement.'', status = PENDING,
        createdAt = t, resolvedAt = None, imageUrl = None,
        votes = 0, isPublic = False, authenticityStatus = Some Unverified, deletedAt = None \<rparr>,
      \<lparr> id_c = 4, userId = 4, userName = ''Diana'', location = ''Gym'',
        description = ''Paper towels all over the floor.'', status = PENDING,
        createdAt = t - 3 * 60 * 60 * 1000, resolvedAt = None, imageUrl = None,
        votes = 8, isPublic = True, authenticityStatus = Some Unverified, deletedAt = None \<rparr>,
      \<lparr> id_c = 5, userId = 5, userName = ''Eve'', location = ''Science Building'',
        description = ''Compost bin is missing.'', status = IN_PROGRESS,
        createdAt = t - 5 * day_ms, resolvedAt = None, imageUrl = None,
        votes = 3, isPublic = True, authenticityStatus = Some LikelyAuthentic, deletedAt = None \<rparr> ]"

text \<open>The invariant of the data model: \<^verbatim>\<open>resolvedAt\<close> is set iff the status is Resolved.\<close>

definition resolved_inv :: "Complaint \<Rightarrow> bool" where
  "resolved_inv c = ((resolvedAt c \<noteq> None) = (status c = RESOLVED))"

text \<open>
  The application changes the collection only through these handlers. An \<open>Action\<close> is one
  call with its arguments (and clock reads), \<open>run\<close> a sequence of calls from a given
  collection.
\<close>

datatype Action =
    AddComplaint "User option" int int string string "string option" "bool option" "Authenticity option"
  | Vote int
  | UpdateComplaintStatus int int Status
  | DeleteComplaint int int
  | RestoreComplaint int
  | PermanentDelete int
  | VerifyAuthenticity "string \<Rightarrow> string option \<Rightarrow> Authenticity" "Complaint list" int
  | AdminVerify int Authenticity

fun perform :: "Action \<Rightarrow> Complaint list \<Rightarrow> Complaint list" where
  "perform (AddComplaint cu dateNow newDate loc descr img pub auth) prev =
     handleAddComplaint cu dateNow newDate loc descr img pub auth prev"
| "perform (Vote k) prev = handleVote k prev"
| "perform (UpdateComplaintStatus newDate k st) prev = handleUpdateComplaintStatus newDate k st prev"
| "perform (DeleteComplaint newDate k) prev = handleDeleteComplaint newDate k prev"
| "perform (RestoreComplaint k) prev = handleRestoreComplaint k prev"
| "perform (PermanentDelete k) prev = handlePermanentDelete k prev"
| "perform (VerifyAuthenticity verify complaints k) prev = handleVerifyAuthenticity verify complaints k prev"
| "perform (AdminVerify k st) prev = handleAdminVerify k st prev"

definition run :: "Action list \<Rightarrow> Complaint list \<Rightarrow> Complaint list" where
  "run actions complaints = foldl (\<lambda>prev a. perform a prev) complaints actions"

section \<open>Authenticity controls of the complaint card (Dashboard.tsx)\<close>

text \<open>
  \<^verbatim>\<open>ComplaintCard\<close> derives four flags from the complaint it renders. A deleted complaint
  is rendered to an administrator as a bin card with restore and purge buttons only. Otherwise
  the administrator block shows, when both callbacks are passed and the status is neither
  Verified nor Spam, the AI check button if the complaint is not AI-checked yet and the two
  admin decision buttons if it is. \<open>handleVerifyClick\<close> and \<open>handleAdminAction\<close> are
  the click handlers of those buttons: they test only that the callback was passed and call
  it with the id of the complaint the card was rendered with. The list cards render the
  complaints of the collection; the modal card renders \<^verbatim>\<open>selectedComplaint\<close>, the
  complaint value held since the card was clicked, which later updates of the collection do
  not change.
\<close>

definition authStatus :: "Complaint \<Rightarrow> Authenticity" where
  "authStatus complaint = (case authenticityStatus complaint of None \<Rightarrow> Unverified | Some a \<Rightarrow> a)"

definition isAiChecked :: "Complaint \<Rightarrow> bool" where
  "isAiChecked complaint = (authStatus complaint = LikelyAuthentic \<or> authStatus complaint = PotentialSpam)"

definition isVerified :: "Complaint \<Rightarrow> bool" where
  "isVerified complaint = (authStatus complaint = Verified)"

definition isSpam :: "Complaint \<Rightarrow> bool" where
  "isSpam complaint = (authStatus complaint = Spam)"

definition aiCheckButtonShown :: "User \<Rightarrow> bool \<Rightarrow> bool \<Rightarrow> Complaint \<Rightarrow> bool" where
  "aiCheckButtonShown currentUser onVerify onAdminVerify complaint =
     (\<not> (deletedAt complaint \<noteq> None \<and> role currentUser = ADMIN)
      \<and> role currentUser = ADMIN
      \<and> onVerify \<and> onAdminVerify \<and> \<not> isVerified complaint \<and> \<not> isSpam complaint
      \<and> \<not> isAiChecked complaint)"

definition adminButtonsShown :: "User \<Rightarrow> bool \<Rightarrow> bool \<Rightarrow> Complaint \<Rightarrow> bool" where
  "adminButtonsShown currentUser onVerify onAdminVerify complaint =
     (\<not> (deletedAt complaint \<noteq> None \<and> role currentUser = ADMIN)
      \<and> role currentUser = ADMIN
      \<and> onVerify \<and> onAdminVerify \<and> \<not> isVerified complaint \<and> \<not> isSpam complaint
      \<and> isAiChecked complaint)"

definition handleVerifyClick ::
  "bool \<Rightarrow> Complaint \<Rightarrow> (string \<Rightarrow> string option \<Rightarrow> Authenticity)
     \<Rightarrow> Complaint list \<Rightarrow> Complaint list \<Rightarrow> Complaint list" where
  "handleVerifyClick onVerify complaint verify complaints prev =
     (if onVerify then handleVerifyAuthenticity verify complaints (id_c complaint) prev else prev)"

definition handleAdminAction :: "bool \<Rightarrow> Complaint \<Rightarrow> Authenticity \<Rightarrow> Complaint list \<Rightarrow> Complaint list" where
  "handleAdminAction onAdminVerify complaint st prev =
     (if onAdminVerify then handleAdminVerify (id_c complaint) st prev else prev)"

section \<open>AI gateway, complaint form and chat tool (geminiService.ts, ComplaintForm.tsx, ChatAssistant.tsx)\<close>

text \<open>
  An awaited promise either rejects or resolves. The remote call
  \<^verbatim>\<open>ai.models.generateContent\<close> is the parameter \<open>generateContent\<close>, a function of the
  description and the image that make up its request; it throws or answers with an optional
  text. \<^verbatim>\<open>trim\<close> removes white space at both ends (the ASCII white space characters).
  \<^verbatim>\<open>verifyComplaintAuthenticity\<close> answers Likely Authentic without a key, when the remote
  call throws (its own \<^verbatim>\<open>catch\<close>) and when the text is neither of the two verdicts.
\<close>

datatype 'a Awaited = Rejects | Resolves 'a

datatype GenerateContentResult = Throws | Response "string option"

definition isWhiteSpace :: "char \<Rightarrow> bool" where
  "isWhiteSpace ch = (of_char ch \<in> {9, 10, 11, 12, 13, 32 :: nat})"

definition trim :: "string \<Rightarrow> string" where
  "trim s = rev (dropWhile isWhiteSpace (rev (dropWhile isWhiteSpace s)))"

definition falsy :: "string option \<Rightarrow> bool" where
  "falsy s = (s = None \<or> s = Some [])"

definition verifyComplaintAuthenticity ::
  "string option \<Rightarrow> (string \<Rightarrow> string option \<Rightarrow> GenerateContentResult) \<Rightarrow> string \<Rightarrow> string option
     \<Rightarrow> Authenticity" where
  "verifyComplaintAuthenticity API_KEY generateContent descr img =
     (if falsy API_KEY then LikelyAuthentic
      else (case generateContent descr img of
              Throws \<Rightarrow> LikelyAuthentic
            | Response None \<Rightarrow> LikelyAuthentic
            | Response (Some text) \<Rightarrow>
                (if trim text = ''Likely Authentic'' then LikelyAuthentic
                 else if trim text = ''Potential Spam'' then PotentialSpam
                 else LikelyAuthentic)))"

text \<open>
  \<^verbatim>\<open>processSubmission\<close> of the complaint form: \<open>awaited\<close> is the outcome of
  \<^verbatim>\<open>await verifyComplaintAuthenticity(...)\<close>, read only when the user asked for a public
  complaint and no manual verdict is held. The result is the argument list passed to
  \<^verbatim>\<open>onSubmit\<close>. \<open>orUndefined\<close> is \<^verbatim>\<open>image || undefined\<close>.
\<close>

definition orUndefined :: "string option \<Rightarrow> string option" where
  "orUndefined img = (if falsy img then None else img)"

definition processSubmission ::
  "string \<Rightarrow> string option \<Rightarrow> bool \<Rightarrow> Authenticity option \<Rightarrow> Authenticity Awaited \<Rightarrow> string
     \<Rightarrow> string \<times> string \<times> string option \<times> bool \<times> Authenticity" where
  "processSubmission descr img isPub verificationResult awaited finalLocation =
     (let (finalIsPublic, finalAuthStatus) =
            (if verificationResult = Some LikelyAuthentic then (isPub, LikelyAuthentic)
             else if verificationResult = Some PotentialSpam then (isPub, PotentialSpam)
             else if isPub then
               (case awaited of
                  Resolves st \<Rightarrow> (isPub, st)
                | Rejects \<Rightarrow> (False, Unverified))
             else (isPub, Unverified))
      in (finalLocation, descr, orUndefined img,
          (if finalAuthStatus = PotentialSpam then False else finalIsPublic), finalAuthStatus))"

text \<open>
  \<^verbatim>\<open>handleSubmit\<close> of the complaint form validates, then submits with the typed location
  or tries to detect one. \<open>GeoEnv\<close> holds what the browser and the user answer on that path:
  whether geolocation exists, the two confirmation dialogs, the position (as the coordinate
  text used as fallback, \<open>None\<close> for the error callback) and the reverse geocoding call.
\<close>

record GeoEnv =
  geolocation :: bool
  confirmDetect :: bool
  position :: "string option"
  geocode :: "string Awaited"
  confirmProceed :: bool

datatype SubmitResult = Alert string | NoAction | Proceed string

definition handleSubmit :: "GeoEnv \<Rightarrow> string \<Rightarrow> string \<Rightarrow> string option \<Rightarrow> SubmitResult" where
  "handleSubmit env loc descr img =
     (if descr = [] then Alert ''Please provide a description.''
      else if falsy img then Alert ''An image is required to file a complaint.''
      else if loc \<noteq> [] then Proceed loc
      else if \<not> geolocation env then
        Alert ''Location is required and Geolocation is not supported. Please enter it manually.''
      else if confirmDetect env then
        (case position env of
           None \<Rightarrow> Alert ''Could not access location. Please check permissions or enter manually.''
         | Some coords \<Rightarrow>
             (case geocode env of
                Rejects \<Rightarrow> Alert ''Could not detect location automatically. Please enter it manually.''
              | Resolves address \<Rightarrow>
                  (let detectedLocation = (if address \<noteq> [] then address else coords)
                   in if confirmProceed env then Proceed detectedLocation else NoAction)))
      else NoAction)"

text \<open>
  \<^verbatim>\<open>handleComplaintSubmit\<close> of the dashboard forwards the form's arguments to
  \<^verbatim>\<open>handleAddComplaint\<close>. \<open>submitComplaintForm\<close> is the whole form path: validation,
  the authenticity call as the service performs it, and the insertion.
\<close>

definition handleComplaintSubmit ::
  "User option \<Rightarrow> int \<Rightarrow> int \<Rightarrow> string \<times> string \<times> string option \<times> bool \<times> Authenticity
     \<Rightarrow> Complaint list \<Rightarrow> Complaint list" where
  "handleComplaintSubmit currentUser dateNow newDate args prev =
     (case args of (loc, descr, img, pub, auth) \<Rightarrow>
        handleAddComplaint currentUser dateNow newDate loc descr img (Some pub) (Some auth) prev)"

definition submitComplaintForm ::
  "User option \<Rightarrow> int \<Rightarrow> int \<Rightarrow> string option \<Rightarrow> (string \<Rightarrow> string option \<Rightarrow> GenerateContentResult)
     \<Rightarrow> GeoEnv \<Rightarrow> string \<Rightarrow> string \<Rightarrow> string option \<Rightarrow> bool \<Rightarrow> Authenticity option
     \<Rightarrow> Complaint list \<Rightarrow> Complaint list" where
  "submitComplaintForm currentUser dateNow newDate API_KEY generateContent env loc descr img isPub
       verificationResult prev =
     (case handleSubmit env loc descr img of
        Proceed finalLocation \<Rightarrow>
          handleComplaintSubmit currentUser dateNow newDate
            (processSubmission descr img isPub verificationResult
               (Resolves (verifyComplaintAuthenticity API_KEY generateContent descr (orUndefined img)))
               finalLocation) prev
      | _ \<Rightarrow> prev)"

text \<open>
  \<^verbatim>\<open>handleToolCall\<close> of the chat assistant runs the \<^verbatim>\<open>create_complaint\<close> tool with
  the location and description the model supplied; it returns the tool result text and the
  new collection.
\<close>

definition handleToolCall ::
  "User option \<Rightarrow> int \<Rightarrow> int \<Rightarrow> string \<Rightarrow> string \<Rightarrow> string \<Rightarrow> Complaint list \<Rightarrow> string \<times> Complaint list" where
  "handleToolCall currentUser dateNow newDate toolName argLocation argDescription prev =
     (if toolName = ''create_complaint''
      then (''Complaint successfully created for '' @ argLocation @ ''.'',
            handleAddComplaint currentUser dateNow newDate argLocation argDescription None (Some True) None prev)
      else (''Unknown action.'', prev))"

section \<open>Gamification view (Dashboard.tsx)\<close>

text \<open>
  The gamification case of \<^verbatim>\<open>renderUserDashboard\<close>: every user is mapped to a copy with
  derived points and badges, administrators are filtered out, and the rest is sorted by
  points, highest first (\<^verbatim>\<open>Array.prototype.sort\<close> is stable, as \<open>sort_key\<close> is).
  \<open>currentUserStats\<close> is the entry whose points and badges the view displays.
\<close>

definition userActivePublicComplaints :: "Complaint list \<Rightarrow> User \<Rightarrow> Complaint list" where
  "userActivePublicComplaints complaints u =
     filter (\<lambda>c. userId c = id_u u \<and> isPublic c \<and> status c \<noteq> RESOLVED \<and> deletedAt c = None
                \<and> authenticityStatus c \<noteq> Some Spam) complaints"

definition gamified :: "Complaint list \<Rightarrow> User \<Rightarrow> User" where
  "gamified complaints u =
     (let active = userActivePublicComplaints complaints u;
          totalPoints = points u + foldl (\<lambda>sum c. sum + votes c * 5) 0 active;
          dynamicBadges = badges u;
          totalVotes = foldl (\<lambda>sum c. sum + votes c) 0 active;
          dynamicBadges1 = (if totalVotes \<ge> 5 \<and> COMMUNITY_VOICE \<notin> set dynamicBadges
                            then dynamicBadges @ [COMMUNITY_VOICE] else dynamicBadges);
          dynamicBadges2 = (if totalVotes \<ge> 10 \<and> INFLUENCER \<notin> set dynamicBadges1
                            then dynamicBadges1 @ [INFLUENCER] else dynamicBadges1)
      in u\<lparr>points := totalPoints, badges := dynamicBadges2\<rparr>)"

definition sortedUsers :: "User list \<Rightarrow> Complaint list \<Rightarrow> User list" where
  "sortedUsers users complaints =
     sort_key (\<lambda>u. - points u) (filter (\<lambda>u. role u = USER) (map (gamified complaints) users))"

definition currentUserStats :: "User list \<Rightarrow> Complaint list \<Rightarrow> User \<Rightarrow> User" where
  "currentUserStats users complaints currentUser =
     (case find (\<lambda>u. id_u u = id_u currentUser) (sortedUsers users complaints) of
        Some u \<Rightarrow> u
      | None \<Rightarrow> currentUser)"

definition totalVotes :: "Complaint list \<Rightarrow> User \<Rightarrow> int" where
  "totalVotes complaints u = sum_list (map votes (userActivePublicComplaints complaints u))"

section \<open>Analytics (Dashboard.tsx, AdminReportsView)\<close>

text \<open>
  JavaScript numbers are IEEE 754 doubles. A finite double is a rational number, and an
  arithmetic operation returns the exact result rounded to the nearest double, ties to the
  even significand: \<open>fl\<close> is that rounding for the normal range (53 significant bits,
  exponent unbounded), which holds every value the metrics can take. \<open>ilog2\<close> is the
  binary exponent of a positive rational, from the bit lengths of numerator and denominator.
  \<^verbatim>\<open>Math.round\<close> returns the nearest integer, the larger one at a tie.
\<close>

definition pow2 :: "int \<Rightarrow> rat" where
  "pow2 e = (if 0 \<le> e then 2 ^ nat e else 1 / 2 ^ nat (- e))"

definition ilog2 :: "rat \<Rightarrow> int" where
  "ilog2 x = (case quotient_of x of (a, b) \<Rightarrow>
                (let d = bitlen a - bitlen b in if pow2 d \<le> x then d else d - 1))"

definition roundEven :: "rat \<Rightarrow> int" where
  "roundEven y = (let n = \<lfloor>y\<rfloor>; f = y - of_int n
                  in if f < 1 / 2 then n else if 1 / 2 < f then n + 1
                     else if even n then n else n + 1)"

definition fl :: "rat \<Rightarrow> rat" where
  "fl x = (if x = 0 then 0
           else (let e = ilog2 \<bar>x\<bar> - 52
                 in sgn x * of_int (roundEven (\<bar>x\<bar> / pow2 e)) * pow2 e))"

definition Math_round :: "rat \<Rightarrow> int" where
  "Math_round x = \<lfloor>x + 1 / 2\<rfloor>"

text \<open>
  \<^verbatim>\<open>toFixed(1)\<close> takes the integer \<open>n\<close> for which \<open>n / 10\<close> is nearest to the value
  (the larger one at a tie), writes its decimal digits, pads them to two with a zero, and
  puts the point before the last digit; a negative value gets a minus sign. (This is the
  algorithm for values below \<open>10^21\<close>, which the averages are.)
\<close>

function digits :: "nat \<Rightarrow> string" where
  "digits n = (if n < 10 then [char_of (48 + n)] else digits (n div 10) @ [char_of (48 + n mod 10)])"
  by pat_completeness auto
termination
  by (relation "measure (\<lambda>n. n)") auto

definition toFixed1 :: "rat \<Rightarrow> string" where
  "toFixed1 x =
     (let s = (if x < 0 then ''-'' else []);
          n = nat \<lfloor>10 * \<bar>x\<bar> + 1 / 2\<rfloor>;
          m = digits n;
          m1 = (if length m \<le> 1 then replicate (2 - length m) (CHR ''0'') @ m else m)
      in s @ take (length m1 - 1) m1 @ ''.'' @ drop (length m1 - 1) m1)"

text \<open>
  \<^verbatim>\<open>AdminReportsView\<close>: \<open>filteredComplaints\<close> keeps the complaints that are not deleted
  and match the year and month filters (\<open>None\<close> for \<^verbatim>\<open>'all'\<close>; the calendar functions
  of \<^verbatim>\<open>Date\<close> are parameters). \<open>analyticsMetrics\<close> computes on that list, every
  operation on numbers rounded as the double operation is.
\<close>

definition filteredComplaints ::
  "(int \<Rightarrow> int) \<Rightarrow> (int \<Rightarrow> int) \<Rightarrow> int option \<Rightarrow> int option \<Rightarrow> Complaint list \<Rightarrow> Complaint list" where
  "filteredComplaints getFullYear getMonth year month complaints =
     filter (\<lambda>c. let yearMatch = (case year of None \<Rightarrow> True | Some y \<Rightarrow> getFullYear (createdAt c) = y);
                    monthMatch = (case month of None \<Rightarrow> True | Some m \<Rightarrow> getMonth (createdAt c) = m)
                in yearMatch \<and> monthMatch \<and> deletedAt c = None) complaints"

record Metrics =
  avgResolutionTimeDays :: string
  resolutionRate :: int
  total :: nat

definition resolvedComplaints :: "Complaint list \<Rightarrow> Complaint list" where
  "resolvedComplaints filtered = filter (\<lambda>c. status c = RESOLVED \<and> resolvedAt c \<noteq> None) filtered"

definition totalResolutionTime :: "Complaint list \<Rightarrow> rat" where
  "totalResolutionTime resolved =
     foldl (\<lambda>acc c. case resolvedAt c of
                       Some r \<Rightarrow> fl (acc + fl (of_int r - of_int (createdAt c)))
                     | None \<Rightarrow> acc) 0 resolved"

definition analyticsMetrics :: "Complaint list \<Rightarrow> Metrics" where
  "analyticsMetrics filtered =
     (let resolved = resolvedComplaints filtered;
          totalResolved = length resolved;
          total = length filtered;
          avgResolutionTimeHours =
            (if totalResolved > 0
             then fl (fl (totalResolutionTime resolved / of_nat totalResolved) / (1000 * 60 * 60))
             else 0);
          avgResolutionTimeDays = toFixed1 (fl (avgResolutionTimeHours / 24));
          resolutionRate =
            (if total > 0 then Math_round (fl (fl (of_nat totalResolved / of_nat total) * 100)) else 0)
      in \<lparr> avgResolutionTimeDays = avgResolutionTimeDays, resolutionRate = resolutionRate,
           total = total \<rparr>)"

text \<open>
  The exact quantities the metrics approximate: the resolution time of a complaint in
  milliseconds, the mean resolution time of a list in days, and the two tie conditions:
  \<open>rateTie r t\<close> says that \<open>100 * r / t\<close> lies exactly halfway between two integers,
  \<open>daysTie T n\<close> that ten times the mean of \<open>n\<close> resolution times of sum \<open>T\<close>, in
  days, does.
\<close>

definition resolutionTime :: "Complaint \<Rightarrow> int" where
  "resolutionTime c = (case resolvedAt c of Some r \<Rightarrow> r - createdAt c | None \<Rightarrow> 0)"

definition rateTie :: "nat \<Rightarrow> nat \<Rightarrow> bool" where
  "rateTie r t = (2 * int t dvd 200 * int r + int t)"

definition daysTie :: "int \<Rightarrow> nat \<Rightarrow> bool" where
  "daysTie T n = (17280000 * int n dvd 2 * T + 8640000 * int n)"

definition meanResolutionDays :: "Complaint list \<Rightarrow> rat" where
  "meanResolutionDays resolved =
     of_int (sum_list (map resolutionTime resolved)) / of_nat (length resolved) / 86400000"

section \<open>Sample users, complaints and gateway behaviours\<close>

definition alice :: User where
  "alice = \<lparr> id_u = 1, name = ''Alice'', email = ''alice@example.com'', password = Some ''password'',
             role = USER, points = 150, badges = [RECYCLING_ROOKIE] \<rparr>"

definition adminBob :: User where
  "adminBob = \<lparr> id_u = 2, name = ''Admin Bob'', email = ''admin@example.com'', password = Some ''admin'',
             role = ADMIN, points = 0, badges = [] \<rparr>"

definition serviceDown :: "string \<Rightarrow> string option \<Rightarrow> GenerateContentResult" where
  "serviceDown descr img = Throws"

definition answersSpam :: "string \<Rightarrow> string option \<Rightarrow> GenerateContentResult" where
  "answersSpam descr img = Response (Some ''Potential Spam'')"

definition answersAuthentic :: "string \<Rightarrow> string option \<Rightarrow> GenerateContentResult" where
  "answersAuthentic descr img = Response (Some ''Likely Authentic'')"

definition noGeo :: GeoEnv where
  "noGeo = \<lparr> geolocation = False, confirmDetect = False, position = None, geocode = Rejects,
             confirmProceed = False \<rparr>"

text \<open>
  An administrator opens the modal on the Unverified seed complaint 4 and runs the AI check
  there, which answers Likely Authentic. The modal still renders the value it was opened
  with, so its AI check button is still there: the administrator clicks it again, closes
  the modal while the call is pending, and verifies the complaint on its list card. Then
  the pending check answers Potential Spam.
\<close>

definition selectedComplaint :: Complaint where
  "selectedComplaint = initialComplaints 0 ! 3"

definition afterFirstCheck :: "Complaint list" where
  "afterFirstCheck =
     handleVerifyClick True selectedComplaint (verifyComplaintAuthenticity (Some ''k'') answersAuthentic)
       (initialComplaints 0) (initialComplaints 0)"

definition afterAdminVerify :: "Complaint list" where
  "afterAdminVerify = handleAdminAction True (afterFirstCheck ! 3) Verified afterFirstCheck"

definition afterSecondCheck :: "Complaint list" where
  "afterSecondCheck =
     handleVerifyClick True selectedComplaint (verifyComplaintAuthenticity (Some ''k'') answersSpam)
       afterFirstCheck afterAdminVerify"

text \<open>Two complaints filed by Alice in the same millisecond, on the seed collection.\<close>

definition sameMillisecond :: "Complaint list" where
  "sameMillisecond =
     handleAddComplaint (Some alice) 1700000000000 1700000000000 ''Gym'' ''Litter''
       (Some ''data:image/png;base64,AAAA'') (Some True) None
       (handleAddComplaint (Some alice) 1700000000000 1700000000000 ''Cafeteria'' ''Full bin''
          (Some ''data:image/png;base64,BBBB'') (Some True) None (initialComplaints 1699999999000))"

definition newcomer :: User where
  "newcomer = \<lparr> id_u = 9, name = ''Hari'', email = ''hari@example.com'', password = Some ''password'',
                role = USER, points = 0, badges = [] \<rparr>"

definition sixVotes :: Complaint where
  "sixVotes = \<lparr> id_c = 100, userId = 9, userName = ''Hari'', location = ''Hostel gate'',
                description = ''Litter near the gate.'', status = PENDING, createdAt = 1700000000000,
                resolvedAt = None, imageUrl = Some ''data:image/png;base64,AAAA'', votes = 6,
                isPublic = True, authenticityStatus = Some Unverified, deletedAt = None \<rparr>"

definition resolvedSample :: "int \<Rightarrow> int \<Rightarrow> Complaint" where
  "resolvedSample created resolved =
     \<lparr> id_c = 1, userId = 1, userName = ''Alice'', location = ''Library, 2nd Floor'',
       description = ''Overflowing recycling bin.'', status = RESOLVED,
       createdAt = created, resolvedAt = Some resolved, imageUrl = None,
       votes = 0, isPublic = True, authenticityStatus = Some Verified, deletedAt = None \<rparr>"

definition pendingSample :: "int \<Rightarrow> Complaint" where
  "pendingSample created =
     \<lparr> id_c = 3, userId = 1, userName = ''Alice'', location = ''Dorm Block A'',
       description = ''Broken glass bottle on the pavement.'', status = PENDING,
       createdAt = created, resolvedAt = None, imageUrl = None,
       votes = 0, isPublic = False, authenticityStatus = Some Unverified, deletedAt = None \<rparr>"

definition oneOfThree :: "Complaint list" where
  "oneOfThree = [pendingSample 1700000000001, resolvedSample 1700000000000 1700172800000,
                 pendingSample 1700000000002]"

section \<open>Properties of the lifecycle operations\<close>

lemma initialComplaints_inv: "list_all resolved_inv (initialComplaints t)"
  by (simp add: initialComplaints_def resolved_inv_def)

lemma handleAddComplaint_inv:
  "list_all resolved_inv prev \<Longrightarrow>
   list_all resolved_inv (handleAddComplaint cu t1 t2 loc descr img pub auth prev)"
  by (cases cu) (simp_all add: handleAddComplaint_def resolved_inv_def)

lemma handleUpdateComplaintStatus_inv:
  "list_all resolved_inv prev \<Longrightarrow>
   list_all resolved_inv (handleUpdateComplaintStatus t complaintId st prev)"
  by (induction prev) (simp_all add: handleUpdateComplaintStatus_def resolved_inv_def)

lemma map_if_inv:
  assumes "list_all resolved_inv prev" "\<And>c. resolved_inv c \<Longrightarrow> resolved_inv (g c)"
  shows "list_all resolved_inv (map (\<lambda>c. if id_c c = k then g c else c) prev)"
  using assms by (induction prev) simp_all

lemma perform_inv:
  assumes "list_all resolved_inv prev"
  shows "list_all resolved_inv (perform a prev)"
proof (cases a)
  case (AddComplaint cu dateNow newDate loc descr img pub auth)
  with assms show ?thesis by (simp add: handleAddComplaint_inv)
next
  case (Vote k)
  with assms show ?thesis
    by (simp add: handleVote_def) (rule map_if_inv, simp_all add: resolved_inv_def)
next
  case (UpdateComplaintStatus newDate k st)
  with assms show ?thesis by (simp add: handleUpdateComplaintStatus_inv)
next
  case (DeleteComplaint newDate k)
  with assms show ?thesis
    by (simp add: handleDeleteComplaint_def) (rule map_if_inv, simp_all add: resolved_inv_def)
next
  case (RestoreComplaint k)
  with assms show ?thesis
    by (simp add: handleRestoreComplaint_def) (rule map_if_inv, simp_all add: resolved_inv_def)
next
  case (PermanentDelete k)
  with assms show ?thesis
    by (simp add: handlePermanentDelete_def list_all_iff)
next
  case (VerifyAuthenticity verify complaints k)
  show ?thesis
  proof (cases "find (\<lambda>c. id_c c = k) complaints")
    case None
    with assms VerifyAuthenticity show ?thesis by (simp add: handleVerifyAuthenticity_def)
  next
    case (Some complaint)
    with assms VerifyAuthenticity show ?thesis
      by (simp add: handleVerifyAuthenticity_def Let_def)
         (rule map_if_inv, simp_all add: resolved_inv_def)
  qed
next
  case (AdminVerify k st)
  with assms show ?thesis
    by (simp add: handleAdminVerify_def) (rule map_if_inv, simp_all add: resolved_inv_def)
qed

lemma run_inv:
  "list_all resolved_inv complaints \<Longrightarrow> list_all resolved_inv (run actions complaints)"
  unfolding run_def by (induction actions arbitrary: complaints) (simp_all add: perform_inv)

lemma reachable_inv: "list_all resolved_inv (run actions (initialComplaints t))"
  by (rule run_inv) (rule initialComplaints_inv)

lemma in_map_ifE:
  assumes "c \<in> set (map (\<lambda>x. if P x then g x else x) xs)"
  obtains x where "x \<in> set xs" "P x" "c = g x" | "c \<in> set xs" "\<not> P c"
proof -
  from assms obtain x where x: "x \<in> set xs" "c = (if P x then g x else x)"
    unfolding set_map by blast
  show thesis
  proof (cases "P x")
    case True
    with x that(1) show ?thesis by simp
  next
    case False
    with x that(2) show ?thesis by simp
  qed
qed

lemma setStatus_target:
  "c \<in> set (handleUpdateComplaintStatus t complaintId st prev) \<Longrightarrow> id_c c = complaintId \<Longrightarrow>
     status c = st \<and> resolvedAt c = (if st = RESOLVED then Some t else None)"
  unfolding handleUpdateComplaintStatus_def by (erule in_map_ifE) simp_all

lemma setStatus_other:
  "c \<in> set (handleUpdateComplaintStatus t complaintId st prev) \<Longrightarrow> id_c c \<noteq> complaintId \<Longrightarrow>
     c \<in> set prev"
  unfolding handleUpdateComplaintStatus_def by (erule in_map_ifE) simp_all

text \<open>
  C1. After \<^verbatim>\<open>handleUpdateComplaintStatus\<close>, every complaint with the given id has the
  new status and has \<^verbatim>\<open>resolvedAt\<close> set to the current time iff that status is Resolved
  (cleared otherwise), whatever it held before; if every complaint of the collection
  satisfied "resolvedAt is non-null iff status is Resolved" before the call, every
  complaint satisfies it after the call; and so, after a call on any collection that the
  handlers produce from the seed collection, every complaint of the collection satisfies it.
\<close>

theorem C1_setStatus_resolvedAt_iff_resolved:
  "(\<forall>c \<in> set (handleUpdateComplaintStatus t complaintId st prev).
      id_c c = complaintId \<longrightarrow>
        status c = st \<and> resolvedAt c = (if st = RESOLVED then Some t else None) \<and>
        ((resolvedAt c \<noteq> None) = (status c = RESOLVED)))
   \<and> ((\<forall>c \<in> set prev. (resolvedAt c \<noteq> None) = (status c = RESOLVED)) \<longrightarrow>
      (\<forall>c \<in> set (handleUpdateComplaintStatus t complaintId st prev).
         (resolvedAt c \<noteq> None) = (status c = RESOLVED)))
   \<and> (\<forall>c \<in> set (handleUpdateComplaintStatus t complaintId st (run actions (initialComplaints t0))).
         (resolvedAt c \<noteq> None) = (status c = RESOLVED))"
proof (intro conjI ballI impI)
  fix c assume "c \<in> set (handleUpdateComplaintStatus t complaintId st prev)" "id_c c = complaintId"
  from setStatus_target[OF this]
  show "status c = st" "resolvedAt c = (if st = RESOLVED then Some t else None)"
       "(resolvedAt c \<noteq> None) = (status c = RESOLVED)" by simp_all
next
  fix c
  assume inv: "\<forall>c \<in> set prev. (resolvedAt c \<noteq> None) = (status c = RESOLVED)"
    and c: "c \<in> set (handleUpdateComplaintStatus t complaintId st prev)"
  show "(resolvedAt c \<noteq> None) = (status c = RESOLVED)"
  proof (cases "id_c c = complaintId")
    case True
    from setStatus_target[OF c True] show ?thesis by simp
  next
    case False
    from setStatus_other[OF c False] inv show ?thesis by blast
  qed
next
  fix c
  assume c: "c \<in> set (handleUpdateComplaintStatus t complaintId st (run actions (initialComplaints t0)))"
  have "list_all resolved_inv (handleUpdateComplaintStatus t complaintId st (run actions (initialComplaints t0)))"
    by (rule handleUpdateComplaintStatus_inv) (rule reachable_inv)
  with c show "(resolvedAt c \<noteq> None) = (status c = RESOLVED)"
    by (simp add: list_all_iff resolved_inv_def)
qed

theorem C1_witness:
  "map status (handleUpdateComplaintStatus 1000 2 RESOLVED (initialComplaints 900))
     = [RESOLVED, RESOLVED, PENDING, PENDING, IN_PROGRESS]
   \<and> map resolvedAt (handleUpdateComplaintStatus 1000 2 RESOLVED (initialComplaints 900))
       = [Some (900 - day_ms), Some 1000, None, None, None]
   \<and> list_all resolved_inv (handleUpdateComplaintStatus 1000 2 RESOLVED (initialComplaints 900))
   \<and> map resolvedAt (handleUpdateComplaintStatus 1000 1 PENDING (initialComplaints 900))
       = [None, None, None, None, None]
   \<and> list_all resolved_inv
        (handleUpdateComplaintStatus 1100 1 PENDING
           (run [UpdateComplaintStatus 1000 2 RESOLVED, Vote 4, DeleteComplaint 1050 3]
              (initialComplaints 900)))"
proof -
  note inst = C1_setStatus_resolvedAt_iff_resolved [of 1000 2 RESOLVED "initialComplaints 900"]
  have pre: "\<forall>c \<in> set (initialComplaints 900). (resolvedAt c \<noteq> None) = (status c = RESOLVED)"
    by (simp add: initialComplaints_def)
  from inst pre
  have "\<forall>c \<in> set (handleUpdateComplaintStatus 1000 2 RESOLVED (initialComplaints 900)).
      (resolvedAt c \<noteq> None) = (status c = RESOLVED)" by blast
  then have "list_all resolved_inv (handleUpdateComplaintStatus 1000 2 RESOLVED (initialComplaints 900))"
    by (simp add: list_all_iff resolved_inv_def)
  moreover have "map resolvedAt (handleUpdateComplaintStatus 1000 2 RESOLVED (initialComplaints 900))
       = [Some (900 - day_ms), Some 1000, None, None, None]"
    by (simp add: handleUpdateComplaintStatus_def initialComplaints_def)
  moreover have "map status (handleUpdateComplaintStatus 1000 2 RESOLVED (initialComplaints 900))
       = [RESOLVED, RESOLVED, PENDING, PENDING, IN_PROGRESS]"
    by (simp add: handleUpdateComplaintStatus_def initialComplaints_def)
  moreover have "map resolvedAt (handleUpdateComplaintStatus 1000 1 PENDING (initialComplaints 900))
       = [None, None, None, None, None]"
    by (simp add: handleUpdateComplaintStatus_def initialComplaints_def)
  moreover from C1_setStatus_resolvedAt_iff_resolved
      [of 1100 1 PENDING "initialComplaints 900"
          "[UpdateComplaintStatus 1000 2 RESOLVED, Vote 4, DeleteComplaint 1050 3]" 900]
  have "list_all resolved_inv
        (handleUpdateComplaintStatus 1100 1 PENDING
           (run [UpdateComplaintStatus 1000 2 RESOLVED, Vote 4, DeleteComplaint 1050 3]
              (initialComplaints 900)))"
    by (simp add: list_all_iff resolved_inv_def)
  ultimately show ?thesis by simp
qed

section \<open>Frame properties\<close>

lemma map_if_filter_other:
  "filter (\<lambda>c. id_c c \<noteq> k) (map (\<lambda>c. if id_c c = k then g c else c) xs)
     = filter (\<lambda>c. id_c c \<noteq> k) xs"
  if "\<And>c. id_c (g c) = id_c c"
  using that by (induction xs) simp_all

lemma map_if_absent:
  "\<forall>c \<in> set xs. id_c c \<noteq> k \<Longrightarrow> map (\<lambda>c. if id_c c = k then g c else c) xs = xs"
  by (induction xs) simp_all

lemma filter_absent:
  "\<forall>c \<in> set xs. id_c c \<noteq> k \<Longrightarrow> filter (\<lambda>c. id_c c \<noteq> k) xs = xs"
  by (induction xs) simp_all

lemma frame_handleVote:
  "filter (\<lambda>c. id_c c \<noteq> k) (handleVote k prev) = filter (\<lambda>c. id_c c \<noteq> k) prev"
  unfolding handleVote_def by (rule map_if_filter_other) simp

lemma frame_handleUpdateComplaintStatus:
  "filter (\<lambda>c. id_c c \<noteq> k) (handleUpdateComplaintStatus t k st prev) = filter (\<lambda>c. id_c c \<noteq> k) prev"
  unfolding handleUpdateComplaintStatus_def by (rule map_if_filter_other) simp

lemma frame_handleDeleteComplaint:
  "filter (\<lambda>c. id_c c \<noteq> k) (handleDeleteComplaint t k prev) = filter (\<lambda>c. id_c c \<noteq> k) prev"
  unfolding handleDeleteComplaint_def by (rule map_if_filter_other) simp

lemma frame_handleRestoreComplaint:
  "filter (\<lambda>c. id_c c \<noteq> k) (handleRestoreComplaint k prev) = filter (\<lambda>c. id_c c \<noteq> k) prev"
  unfolding handleRestoreComplaint_def by (rule map_if_filter_other) simp

lemma frame_handlePermanentDelete:
  "filter (\<lambda>c. id_c c \<noteq> k) (handlePermanentDelete k prev) = filter (\<lambda>c. id_c c \<noteq> k) prev"
  unfolding handlePermanentDelete_def by simp

lemma frame_handleAdminVerify:
  "filter (\<lambda>c. id_c c \<noteq> k) (handleAdminVerify k a prev) = filter (\<lambda>c. id_c c \<noteq> k) prev"
  unfolding handleAdminVerify_def by (rule map_if_filter_other) simp

lemma frame_handleVerifyAuthenticity:
  "filter (\<lambda>c. id_c c \<noteq> k) (handleVerifyAuthenticity verify complaints k prev)
     = filter (\<lambda>c. id_c c \<noteq> k) prev"
proof (cases "find (\<lambda>c. id_c c = k) complaints")
  case None
  then show ?thesis by (simp add: handleVerifyAuthenticity_def)
next
  case (Some complaint)
  then show ?thesis
    by (simp add: handleVerifyAuthenticity_def Let_def map_if_filter_other)
qed

lemma absent_handleVerifyAuthenticity:
  "\<forall>c \<in> set prev. id_c c \<noteq> k \<Longrightarrow> handleVerifyAuthenticity verify complaints k prev = prev"
  by (cases "find (\<lambda>c. id_c c = k) complaints")
     (simp_all add: handleVerifyAuthenticity_def Let_def map_if_absent)

text \<open>
  C10. Each of \<^verbatim>\<open>handleVote\<close>, \<^verbatim>\<open>handleUpdateComplaintStatus\<close>,
  \<^verbatim>\<open>handleDeleteComplaint\<close>, \<^verbatim>\<open>handleRestoreComplaint\<close>, \<^verbatim>\<open>handlePermanentDelete\<close>,
  \<^verbatim>\<open>handleVerifyAuthenticity\<close> and \<^verbatim>\<open>handleAdminVerify\<close>, called with the id \<open>k\<close>,
  leaves the sublist of the complaints whose id is not \<open>k\<close> as it was (the same complaints,
  unchanged, in the same order); and when no complaint of the collection has the id \<open>k\<close>,
  the whole collection is returned unchanged. The operations are total: none has an error
  result.
\<close>

theorem C10_frame:
  "filter (\<lambda>c. id_c c \<noteq> k) (handleVote k prev) = filter (\<lambda>c. id_c c \<noteq> k) prev
   \<and> filter (\<lambda>c. id_c c \<noteq> k) (handleUpdateComplaintStatus t k st prev) = filter (\<lambda>c. id_c c \<noteq> k) prev
   \<and> filter (\<lambda>c. id_c c \<noteq> k) (handleDeleteComplaint t k prev) = filter (\<lambda>c. id_c c \<noteq> k) prev
   \<and> filter (\<lambda>c. id_c c \<noteq> k) (handleRestoreComplaint k prev) = filter (\<lambda>c. id_c c \<noteq> k) prev
   \<and> filter (\<lambda>c. id_c c \<noteq> k) (handlePermanentDelete k prev) = filter (\<lambda>c. id_c c \<noteq> k) prev
   \<and> filter (\<lambda>c. id_c c \<noteq> k) (handleVerifyAuthenticity verify complaints k prev)
        = filter (\<lambda>c. id_c c \<noteq> k) prev
   \<and> filter (\<lambda>c. id_c c \<noteq> k) (handleAdminVerify k a prev) = filter (\<lambda>c. id_c c \<noteq> k) prev
   \<and> ((\<forall>c \<in> set prev. id_c c \<noteq> k) \<longrightarrow>
        handleVote k prev = prev
      \<and> handleUpdateComplaintStatus t k st prev = prev
      \<and> handleDeleteComplaint t k prev = prev
      \<and> handleRestoreComplaint k prev = prev
      \<and> handlePermanentDelete k prev = prev
      \<and> handleVerifyAuthenticity verify complaints k prev = prev
      \<and> handleAdminVerify k a prev = prev)"
proof -
  have absent: "handleVote k prev = prev \<and> handleUpdateComplaintStatus t k st prev = prev
      \<and> handleDeleteComplaint t k prev = prev \<and> handleRestoreComplaint k prev = prev
      \<and> handlePermanentDelete k prev = prev
      \<and> handleVerifyAuthenticity verify complaints k prev = prev
      \<and> handleAdminVerify k a prev = prev"
    if "\<forall>c \<in> set prev. id_c c \<noteq> k"
    using that
    by (simp add: handleVote_def handleUpdateComplaintStatus_def handleDeleteComplaint_def
        handleRestoreComplaint_def handlePermanentDelete_def handleAdminVerify_def
        map_if_absent filter_absent absent_handleVerifyAuthenticity)
  show ?thesis
    using absent
    by (simp only: frame_handleVote frame_handleUpdateComplaintStatus frame_handleDeleteComplaint
        frame_handleRestoreComplaint frame_handlePermanentDelete frame_handleVerifyAuthenticity
        frame_handleAdminVerify simp_thms) blast
qed

theorem C10_witness:
  "map id_c (initialComplaints 0) = [1, 2, 3, 4, 5]
   \<and> handleVote 99 (initialComplaints 0) = initialComplaints 0
   \<and> handlePermanentDelete 99 (initialComplaints 0) = initialComplaints 0
   \<and> handleUpdateComplaintStatus 7 99 RESOLVED (initialComplaints 0) = initialComplaints 0
   \<and> map id_c (filter (\<lambda>c. id_c c \<noteq> 2) (handlePermanentDelete 2 (initialComplaints 0))) = [1, 3, 4, 5]
   \<and> map id_c (filter (\<lambda>c. id_c c \<noteq> 2) (handleVote 2 (initialComplaints 0))) = [1, 3, 4, 5]"
proof -
  have ids: "map id_c (initialComplaints 0) = [1, 2, 3, 4, 5]"
    by (simp add: initialComplaints_def)
  have pre: "\<forall>c \<in> set (initialComplaints 0). id_c c \<noteq> 99"
    by (simp add: initialComplaints_def)
  have "map id_c (filter (\<lambda>c. id_c c \<noteq> 2) (initialComplaints 0)) = [1, 3, 4, 5]"
    by (simp add: initialComplaints_def)
  with pre ids
    C10_frame [of 99 "initialComplaints 0" 7 RESOLVED "verifyComplaintAuthenticity None serviceDown"
                 "initialComplaints 0" Verified]
    C10_frame [of 2 "initialComplaints 0" 7 RESOLVED "verifyComplaintAuthenticity None serviceDown"
                 "initialComplaints 0" Verified]
  show ?thesis by simp
qed

section \<open>Soft delete and restore\<close>

text \<open>
  C9. \<^verbatim>\<open>handleDeleteComplaint\<close> followed by \<^verbatim>\<open>handleRestoreComplaint\<close> on the same id
  keeps the length of the collection, and every complaint that had no \<^verbatim>\<open>deletedAt\<close>
  before is, at its position, equal to the original in every field, \<^verbatim>\<open>deletedAt\<close>
  being absent again; in between, the complaints with that id carry the deletion time.
\<close>

theorem C9_softDelete_restore_roundtrip:
  "length (handleRestoreComplaint complaintId (handleDeleteComplaint t complaintId prev)) = length prev
   \<and> (\<forall>i < length prev.
        (id_c (prev ! i) = complaintId \<longrightarrow>
           deletedAt (handleDeleteComplaint t complaintId prev ! i) = Some t)
        \<and> (deletedAt (prev ! i) = None \<longrightarrow>
           handleRestoreComplaint complaintId (handleDeleteComplaint t complaintId prev) ! i = prev ! i
           \<and> deletedAt (handleRestoreComplaint complaintId (handleDeleteComplaint t complaintId prev) ! i) = None))"
  by (simp add: handleRestoreComplaint_def handleDeleteComplaint_def)

theorem C9_witness:
  "(2::nat) < length (initialComplaints 0)
   \<and> deletedAt (initialComplaints 0 ! 2) = None
   \<and> id_c (initialComplaints 0 ! 2) = 3
   \<and> deletedAt (handleDeleteComplaint 50 3 (initialComplaints 0) ! 2) = Some 50
   \<and> handleRestoreComplaint 3 (handleDeleteComplaint 50 3 (initialComplaints 0)) ! 2 = initialComplaints 0 ! 2"
proof -
  have pre: "(2::nat) < length (initialComplaints 0)" "deletedAt (initialComplaints 0 ! 2) = None"
    "id_c (initialComplaints 0 ! 2) = 3"
    by (simp_all add: initialComplaints_def)
  with C9_softDelete_restore_roundtrip [of 3 50 "initialComplaints 0"]
  show ?thesis by blast
qed

section \<open>Submission\<close>

lemma handleAddComplaint_head:
  "\<exists>c. handleAddComplaint (Some u) dateNow newDate loc descr img pub auth prev = c # prev
     \<and> id_c c = dateNow \<and> userId c = id_u u \<and> userName c = name u
     \<and> location c = loc \<and> description c = descr \<and> imageUrl c = img
     \<and> isPublic c = (case pub of None \<Rightarrow> True | Some b \<Rightarrow> b)
     \<and> authenticityStatus c = Some (case auth of None \<Rightarrow> Unverified | Some a \<Rightarrow> a)
     \<and> createdAt c = newDate \<and> status c = PENDING \<and> votes c = 0
     \<and> resolvedAt c = None \<and> deletedAt c = None"
  by (simp add: handleAddComplaint_def)

lemma handleAddComplaint_logged_out:
  "handleAddComplaint None dateNow newDate loc descr img pub auth prev = prev"
  by (simp add: handleAddComplaint_def)

text \<open>
  C8. \<^verbatim>\<open>handleAddComplaint\<close> puts the new complaint at the head, with the fields the claim
  lists, and leaves the stored complaints as they were (the lemma above). Its id is the
  clock reading \<^verbatim>\<open>Date.now()\<close>, taken "for unique IDs" by the comment above it, and
  nothing checks that the reading is unused: two complaints filed in the same millisecond
  carry the same id, which is then not distinct from the ids of the collection. A vote on
  that id counts on both complaints, and a purge of it removes both.
\<close>

theorem C8_same_millisecond_same_id:
  "map id_c sameMillisecond = [1700000000000, 1700000000000, 1, 2, 3, 4, 5]
   \<and> map location (take 2 sameMillisecond) = [''Gym'', ''Cafeteria'']
   \<and> id_c (hd sameMillisecond) \<in> set (map id_c (tl sameMillisecond))
   \<and> distinct (map id_c sameMillisecond) = False
   \<and> map votes (handleVote 1700000000000 sameMillisecond) = [1, 1, 12, 5, 0, 8, 3]
   \<and> map id_c (handlePermanentDelete 1700000000000 sameMillisecond) = [1, 2, 3, 4, 5]"
  by (simp add: sameMillisecond_def handleAddComplaint_def initialComplaints_def handleVote_def
      handlePermanentDelete_def)

section \<open>Authenticity checks\<close>

lemma verify_spam: "verifyComplaintAuthenticity (Some ''k'') answersSpam d i = PotentialSpam"
  by (simp add: verifyComplaintAuthenticity_def falsy_def answersSpam_def trim_def isWhiteSpace_def)

lemma verify_down: "verifyComplaintAuthenticity (Some ''k'') serviceDown d i = LikelyAuthentic"
  by (simp add: verifyComplaintAuthenticity_def falsy_def serviceDown_def)

lemma handleVerifyAuthenticity_found:
  "find (\<lambda>c. id_c c = complaintId) complaints = Some complaint \<Longrightarrow>
   map authenticityStatus (handleVerifyAuthenticity verify complaints complaintId prev)
     = map (\<lambda>c. if id_c c = complaintId
                  then Some (verify (description complaint) (imageUrl complaint))
                  else authenticityStatus c) prev"
  by (induction prev) (simp_all add: handleVerifyAuthenticity_def Let_def)

lemma aiCheckButtonShown_unverified:
  "aiCheckButtonShown currentUser onVerify onAdminVerify c \<Longrightarrow> authStatus c = Unverified"
  by (cases "authStatus c")
     (simp_all add: aiCheckButtonShown_def isVerified_def isSpam_def isAiChecked_def)

lemma terminal_not_shown:
  "authenticityStatus c = Some Verified \<or> authenticityStatus c = Some Spam \<Longrightarrow>
   \<not> aiCheckButtonShown currentUser onVerify onAdminVerify c"
  by (auto simp add: aiCheckButtonShown_def isVerified_def isSpam_def authStatus_def)

lemma handleVerifyAuthenticity_not_found:
  "find (\<lambda>c. id_c c = complaintId) complaints = None \<Longrightarrow>
   handleVerifyAuthenticity verify complaints complaintId prev = prev"
  by (simp add: handleVerifyAuthenticity_def)

lemma verify_authentic: "verifyComplaintAuthenticity (Some ''k'') answersAuthentic d i = LikelyAuthentic"
  by (simp add: verifyComplaintAuthenticity_def falsy_def answersAuthentic_def trim_def isWhiteSpace_def)

lemma afterFirstCheck_status:
  "map authenticityStatus afterFirstCheck
     = [Some Verified, Some LikelyAuthentic, Some Unverified, Some LikelyAuthentic, Some LikelyAuthentic]"
  "map id_c afterFirstCheck = [1, 2, 3, 4, 5]"
  "map deletedAt afterFirstCheck = [None, None, None, None, None]"
  by (simp_all add: afterFirstCheck_def handleVerifyClick_def selectedComplaint_def
      handleVerifyAuthenticity_def initialComplaints_def verify_authentic)

lemma afterAdminVerify_status:
  "map authenticityStatus afterAdminVerify
     = [Some Verified, Some LikelyAuthentic, Some Unverified, Some Verified, Some LikelyAuthentic]"
  by (simp add: afterAdminVerify_def handleAdminAction_def handleAdminVerify_def
      afterFirstCheck_def handleVerifyClick_def selectedComplaint_def
      handleVerifyAuthenticity_def initialComplaints_def verify_authentic)

lemma afterSecondCheck_status:
  "map authenticityStatus afterSecondCheck
     = [Some Verified, Some LikelyAuthentic, Some Unverified, Some PotentialSpam, Some LikelyAuthentic]"
  by (simp add: afterSecondCheck_def afterAdminVerify_def handleAdminAction_def handleAdminVerify_def
      afterFirstCheck_def handleVerifyClick_def selectedComplaint_def
      handleVerifyAuthenticity_def initialComplaints_def verify_authentic verify_spam)

text \<open>
  C2. The complaint card offers the AI check only for a complaint that is neither Verified
  nor Spam (and not AI-checked), but \<^verbatim>\<open>handleVerifyAuthenticity\<close> itself sets the status
  of every complaint with the id to the AI verdict, whatever it is by then. The card of the
  modal keeps the complaint value it was opened with, so its button stays while the stored
  status moves on: a check started there after the first one, and answered after the
  administrator's decision, replaces the stored Verified by Potential Spam. Called directly
  on the Verified seed complaint 1, the handler overwrites it as well.
\<close>

theorem C2_stale_card_overwrites_verified:
  "authenticityStatus selectedComplaint = Some Unverified
   \<and> aiCheckButtonShown adminBob True True selectedComplaint
   \<and> map authenticityStatus afterFirstCheck
       = [Some Verified, Some LikelyAuthentic, Some Unverified, Some LikelyAuthentic, Some LikelyAuthentic]
   \<and> adminButtonsShown adminBob True True (afterFirstCheck ! 3)
   \<and> map authenticityStatus afterAdminVerify
       = [Some Verified, Some LikelyAuthentic, Some Unverified, Some Verified, Some LikelyAuthentic]
   \<and> map authenticityStatus afterSecondCheck
       = [Some Verified, Some LikelyAuthentic, Some Unverified, Some PotentialSpam, Some LikelyAuthentic]
   \<and> authenticityStatus (initialComplaints 0 ! 0) = Some Verified
   \<and> authenticityStatus
        (handleVerifyAuthenticity (verifyComplaintAuthenticity (Some ''k'') answersSpam)
           (initialComplaints 0) 1 (initialComplaints 0) ! 0) = Some PotentialSpam"
proof -
  have sel: "authenticityStatus selectedComplaint = Some Unverified"
    "deletedAt selectedComplaint = None"
    by (simp_all add: selectedComplaint_def initialComplaints_def)
  then have shown: "aiCheckButtonShown adminBob True True selectedComplaint"
    by (simp add: aiCheckButtonShown_def adminBob_def isVerified_def isSpam_def isAiChecked_def
        authStatus_def)
  have "authenticityStatus (afterFirstCheck ! 3) = Some LikelyAuthentic"
    "deletedAt (afterFirstCheck ! 3) = None"
    using afterFirstCheck_status(1,3) by (simp_all add: list_eq_iff_nth_eq)
  then have buttons: "adminButtonsShown adminBob True True (afterFirstCheck ! 3)"
    by (simp add: adminButtonsShown_def adminBob_def isVerified_def isSpam_def isAiChecked_def
        authStatus_def)
  have seed: "authenticityStatus (initialComplaints 0 ! 0) = Some Verified"
    "authenticityStatus
        (handleVerifyAuthenticity (verifyComplaintAuthenticity (Some ''k'') answersSpam)
           (initialComplaints 0) 1 (initialComplaints 0) ! 0) = Some PotentialSpam"
    by (simp_all add: initialComplaints_def handleVerifyAuthenticity_def verify_spam)
  from sel(1) shown buttons seed show ?thesis
    by (simp only: afterFirstCheck_status(1) afterAdminVerify_status afterSecondCheck_status simp_thms)
qed

lemma handleSubmit_rejects:
  "descr = [] \<or> falsy img \<Longrightarrow> \<exists>msg. handleSubmit env loc descr img = Alert msg"
  by (auto simp add: handleSubmit_def)

lemma submitComplaintForm_rejects:
  "descr = [] \<or> falsy img \<Longrightarrow>
   submitComplaintForm currentUser dateNow newDate API_KEY generateContent env loc descr img isPub
       verificationResult prev = prev"
  using handleSubmit_rejects[of descr img env loc]
  by (auto simp add: submitComplaintForm_def)

lemma handleToolCall_create:
  "snd (handleToolCall (Some u) dateNow newDate ''create_complaint'' argLocation argDescription prev)
     = c # prev \<Longrightarrow> imageUrl c = None \<and> description c = argDescription \<and> isPublic c"
  by (auto simp add: handleToolCall_def handleAddComplaint_def)

text \<open>
  C3. The complaint form refuses a submission with an empty description or without an image
  (the two lemmas above, and the last conjunct below), but the chat assistant's
  \<^verbatim>\<open>create_complaint\<close> tool calls \<^verbatim>\<open>handleAddComplaint\<close> with no image and no check:
  a tool call for the library adds a sixth complaint whose image is absent, and one with an
  empty description is stored as well.
\<close>

theorem C3_chat_tool_files_without_image:
  "length (snd (handleToolCall (Some alice) 1700000000000 1700000000000 ''create_complaint''
             ''Library'' ''Overflowing bin'' (initialComplaints 1699999999000)))
     = Suc (length (initialComplaints 1699999999000))
   \<and> imageUrl (hd (snd (handleToolCall (Some alice) 1700000000000 1700000000000 ''create_complaint''
             ''Library'' ''Overflowing bin'' (initialComplaints 1699999999000)))) = None
   \<and> tl (snd (handleToolCall (Some alice) 1700000000000 1700000000000 ''create_complaint''
             ''Library'' ''Overflowing bin'' (initialComplaints 1699999999000)))
     = initialComplaints 1699999999000
   \<and> description (hd (snd (handleToolCall (Some alice) 1700000000000 1700000000000 ''create_complaint''
             ''Library'' [] (initialComplaints 1699999999000)))) = []
   \<and> submitComplaintForm (Some alice) 1700000000000 1700000000000 (Some ''k'') answersAuthentic noGeo
        ''Library'' ''Overflowing bin'' None True None (initialComplaints 1699999999000)
     = initialComplaints 1699999999000"
  by (simp add: handleToolCall_def handleAddComplaint_def submitComplaintForm_def handleSubmit_def
      falsy_def)

lemma processSubmission_rejects_private:
  "verificationResult \<noteq> Some LikelyAuthentic \<Longrightarrow> verificationResult \<noteq> Some PotentialSpam \<Longrightarrow>
   processSubmission descr img True verificationResult Rejects finalLocation
     = (finalLocation, descr, orUndefined img, False, Unverified)"
  by (simp add: processSubmission_def)

lemma verifyComplaintAuthenticity_never_fails:
  "generateContent descr img = Throws \<Longrightarrow>
   verifyComplaintAuthenticity API_KEY generateContent descr img = LikelyAuthentic"
  by (simp add: verifyComplaintAuthenticity_def)

lemma submitComplaintForm_gateway_failure_public:
  assumes "handleSubmit env loc descr img = Proceed finalLocation"
    and "generateContent descr (orUndefined img) = Throws"
    and "verificationResult \<noteq> Some PotentialSpam"
  shows "\<exists>c. submitComplaintForm (Some u) dateNow newDate API_KEY generateContent env loc descr img True
              verificationResult prev = c # prev
           \<and> isPublic c \<and> authenticityStatus c = Some LikelyAuthentic"
  using assms
  by (simp add: submitComplaintForm_def handleComplaintSubmit_def processSubmission_def
      handleAddComplaint_def verifyComplaintAuthenticity_never_fails)

text \<open>
  C4. \<^verbatim>\<open>processSubmission\<close> makes the complaint private when the awaited authenticity call
  rejects, but \<^verbatim>\<open>verifyComplaintAuthenticity\<close> catches every failure of the remote call
  and resolves to Likely Authentic, so that branch is never taken: a public submission made
  while the remote service throws is stored public, marked Likely Authentic.
\<close>

theorem C4_gateway_failure_stays_public:
  "map (\<lambda>c. (isPublic c, authenticityStatus c))
     (take 1 (submitComplaintForm (Some alice) 1700000000000 1700000000000 (Some ''k'') serviceDown noGeo
        ''Gym'' ''Overflowing bin'' (Some ''data:image/png;base64,AAAA'') True None
        (initialComplaints 1699999999000)))
     = [(True, Some LikelyAuthentic)]
   \<and> length (submitComplaintForm (Some alice) 1700000000000 1700000000000 (Some ''k'') serviceDown noGeo
        ''Gym'' ''Overflowing bin'' (Some ''data:image/png;base64,AAAA'') True None
        (initialComplaints 1699999999000)) = 6"
  by (simp add: submitComplaintForm_def handleSubmit_def falsy_def handleComplaintSubmit_def
      processSubmission_def handleAddComplaint_def verify_down orUndefined_def initialComplaints_def)

text \<open>
  C5. A form submission that passes validation, is requested public and whose authenticity
  check says Potential Spam (the verdict of the manual check held by the form or, when no
  verdict is held, of the automatic check at submission) stores, for the logged-in user, a
  complaint at the head of the collection with \<^verbatim>\<open>isPublic\<close> false and authenticity status
  Potential Spam.
\<close>

theorem C5_spam_flagged_public_forced_private:
  assumes "handleSubmit env loc descr img = Proceed finalLocation"
    and "verificationResult = Some PotentialSpam
         \<or> (verificationResult \<noteq> Some LikelyAuthentic
            \<and> verifyComplaintAuthenticity API_KEY generateContent descr (orUndefined img) = PotentialSpam)"
  shows "\<exists>c. submitComplaintForm (Some u) dateNow newDate API_KEY generateContent env loc descr img True
              verificationResult prev = c # prev
           \<and> isPublic c = False \<and> authenticityStatus c = Some PotentialSpam
           \<and> userId c = id_u u \<and> location c = finalLocation \<and> description c = descr"
  using assms
  by (auto simp add: submitComplaintForm_def handleComplaintSubmit_def processSubmission_def
      handleAddComplaint_def)

theorem C5_witness:
  "handleSubmit noGeo ''Gym'' ''asdf qwer'' (Some ''data:image/png;base64,AAAA'') = Proceed ''Gym''
   \<and> verifyComplaintAuthenticity (Some ''k'') answersSpam ''asdf qwer''
        (orUndefined (Some ''data:image/png;base64,AAAA'')) = PotentialSpam
   \<and> map (\<lambda>c. (isPublic c, authenticityStatus c))
       (take 1 (submitComplaintForm (Some alice) 1700000000000 1700000000000 (Some ''k'') answersSpam noGeo
          ''Gym'' ''asdf qwer'' (Some ''data:image/png;base64,AAAA'') True None
          (initialComplaints 1699999999000)))
       = [(False, Some PotentialSpam)]"
proof -
  have h: "handleSubmit noGeo ''Gym'' ''asdf qwer'' (Some ''data:image/png;base64,AAAA'') = Proceed ''Gym''"
    by (simp add: handleSubmit_def falsy_def)
  have v: "verifyComplaintAuthenticity (Some ''k'') answersSpam ''asdf qwer''
        (orUndefined (Some ''data:image/png;base64,AAAA'')) = PotentialSpam"
    by (rule verify_spam)
  have n: "(None :: Authenticity option) \<noteq> Some LikelyAuthentic" by simp
  from C5_spam_flagged_public_forced_private
         [OF h disjI2 [OF conjI [OF n v]], of alice 1700000000000 1700000000000
            "initialComplaints 1699999999000"]
  obtain c where "submitComplaintForm (Some alice) 1700000000000 1700000000000 (Some ''k'') answersSpam noGeo
          ''Gym'' ''asdf qwer'' (Some ''data:image/png;base64,AAAA'') True None
          (initialComplaints 1699999999000) = c # initialComplaints 1699999999000"
    "isPublic c = False" "authenticityStatus c = Some PotentialSpam" by blast
  then show ?thesis using h v by simp
qed

section \<open>Gamification\<close>

lemma foldl_votes5: "foldl (\<lambda>sum c. sum + votes c * 5) a cs = a + 5 * sum_list (map votes cs)"
  by (induction cs arbitrary: a) (simp_all add: algebra_simps)

lemma foldl_votes: "foldl (\<lambda>sum c. sum + votes c) a cs = a + sum_list (map votes cs)"
  by (induction cs arbitrary: a) (simp_all add: algebra_simps)

lemma gamified_points:
  "points (gamified complaints u) = points u + 5 * totalVotes complaints u"
  by (simp add: gamified_def Let_def foldl_votes5 totalVotes_def)

lemma gamified_id_role: "id_u (gamified complaints u) = id_u u" "role (gamified complaints u) = role u"
  by (simp_all add: gamified_def Let_def)

lemma gamified_badges:
  "set (badges (gamified complaints u)) =
     set (badges u) \<union> (if totalVotes complaints u \<ge> 5 then {COMMUNITY_VOICE} else {})
                   \<union> (if totalVotes complaints u \<ge> 10 then {INFLUENCER} else {})"
  by (auto simp add: gamified_def Let_def foldl_votes totalVotes_def)

lemma find_unique:
  "x \<in> set xs \<Longrightarrow> (\<forall>y \<in> set xs. f y = f x \<longrightarrow> y = x) \<Longrightarrow> find (\<lambda>y. f y = f x) xs = Some x"
  by (induction xs) auto

lemma set_sortedUsers:
  "set (sortedUsers users complaints) = gamified complaints ` {u \<in> set users. role u = USER}"
  by (auto simp add: sortedUsers_def gamified_id_role)

lemma currentUserStats_found:
  assumes "distinct (map id_u users)" "currentUser \<in> set users" "role currentUser = USER"
  shows "currentUserStats users complaints currentUser = gamified complaints currentUser"
proof -
  have inj: "inj_on id_u (set users)" using assms(1) by (simp add: distinct_map)
  have mem: "gamified complaints currentUser \<in> set (sortedUsers users complaints)"
    using assms(2,3) by (auto simp add: set_sortedUsers)
  have uniq: "\<forall>y \<in> set (sortedUsers users complaints).
      id_u y = id_u (gamified complaints currentUser) \<longrightarrow> y = gamified complaints currentUser"
  proof (intro ballI impI)
    fix y assume y: "y \<in> set (sortedUsers users complaints)"
      and e: "id_u y = id_u (gamified complaints currentUser)"
    from y obtain v where v: "v \<in> set users" "y = gamified complaints v"
      by (auto simp add: set_sortedUsers)
    with e have "id_u v = id_u currentUser" by (simp add: gamified_id_role)
    with inj v(1) assms(2) have "v = currentUser" by (auto dest: inj_onD)
    with v show "y = gamified complaints currentUser" by simp
  qed
  from find_unique[OF mem uniq]
  show ?thesis by (simp add: currentUserStats_def gamified_id_role)
qed

text \<open>
  C6. For every user of role User, the leaderboard holds the user's derived entry, whose
  points are the stored points plus five times the sum of the votes of the user's complaints
  that are public, not Resolved, not deleted and not Spam; with distinct user ids that entry
  is the one displayed for the user. An empty filtered set gives the stored points. Community
  Voice is among the derived badges iff it was stored or the filtered votes reach 5,
  Influencer iff it was stored or they reach 10. A user with 0 stored points and one
  qualifying complaint of 6 votes has 30 points, has Community Voice, and has Influencer only
  if it was stored before. The leaderboard holds the derived entries of the users of role
  User and nothing else.
\<close>

theorem C6_displayed_points:
  "(\<forall>u \<in> set users. role u = USER \<longrightarrow>
       gamified complaints u \<in> set (sortedUsers users complaints)
     \<and> points (gamified complaints u)
         = points u + 5 * sum_list (map votes
             (filter (\<lambda>c. userId c = id_u u \<and> isPublic c \<and> status c \<noteq> RESOLVED
                         \<and> deletedAt c = None \<and> authenticityStatus c \<noteq> Some Spam) complaints))
     \<and> (distinct (map id_u users) \<longrightarrow>
          currentUserStats users complaints u = gamified complaints u)
     \<and> (userActivePublicComplaints complaints u = [] \<longrightarrow> points (gamified complaints u) = points u)
     \<and> (COMMUNITY_VOICE \<in> set (badges (gamified complaints u))
          \<longleftrightarrow> COMMUNITY_VOICE \<in> set (badges u) \<or> totalVotes complaints u \<ge> 5)
     \<and> (INFLUENCER \<in> set (badges (gamified complaints u))
          \<longleftrightarrow> INFLUENCER \<in> set (badges u) \<or> totalVotes complaints u \<ge> 10)
     \<and> (\<forall>c. points u = 0 \<and> userActivePublicComplaints complaints u = [c] \<and> votes c = 6 \<longrightarrow>
            points (gamified complaints u) = 30
          \<and> COMMUNITY_VOICE \<in> set (badges (gamified complaints u))
          \<and> (INFLUENCER \<in> set (badges (gamified complaints u)) \<longleftrightarrow> INFLUENCER \<in> set (badges u))))
   \<and> set (sortedUsers users complaints) = gamified complaints ` {u \<in> set users. role u = USER}"
proof (intro conjI ballI impI allI)
  fix u assume u: "u \<in> set users" "role u = USER"
  show "gamified complaints u \<in> set (sortedUsers users complaints)"
    using u by (auto simp add: set_sortedUsers)
  show "points (gamified complaints u)
         = points u + 5 * sum_list (map votes
             (filter (\<lambda>c. userId c = id_u u \<and> isPublic c \<and> status c \<noteq> RESOLVED
                         \<and> deletedAt c = None \<and> authenticityStatus c \<noteq> Some Spam) complaints))"
    by (simp add: gamified_points totalVotes_def userActivePublicComplaints_def)
  show "currentUserStats users complaints u = gamified complaints u" if "distinct (map id_u users)"
    using that u by (rule currentUserStats_found)
  show "points (gamified complaints u) = points u" if "userActivePublicComplaints complaints u = []"
    using that by (simp add: gamified_points totalVotes_def)
  show "COMMUNITY_VOICE \<in> set (badges (gamified complaints u))
          \<longleftrightarrow> COMMUNITY_VOICE \<in> set (badges u) \<or> totalVotes complaints u \<ge> 5"
    by (simp add: gamified_badges)
  show "INFLUENCER \<in> set (badges (gamified complaints u))
          \<longleftrightarrow> INFLUENCER \<in> set (badges u) \<or> totalVotes complaints u \<ge> 10"
    by (simp add: gamified_badges)
  fix c assume sc: "points u = 0 \<and> userActivePublicComplaints complaints u = [c] \<and> votes c = 6"
  then have tv: "totalVotes complaints u = 6" by (simp add: totalVotes_def)
  from sc tv show "points (gamified complaints u) = 30" by (simp add: gamified_points)
  from tv show "COMMUNITY_VOICE \<in> set (badges (gamified complaints u))" by (simp add: gamified_badges)
  from tv show "INFLUENCER \<in> set (badges (gamified complaints u)) \<longleftrightarrow> INFLUENCER \<in> set (badges u)"
    by (simp add: gamified_badges)
next
  show "set (sortedUsers users complaints) = gamified complaints ` {u \<in> set users. role u = USER}"
    by (rule set_sortedUsers)
qed

theorem C6_witness:
  "newcomer \<in> set [adminBob, newcomer] \<and> role newcomer = USER \<and> points newcomer = 0
   \<and> distinct (map id_u [adminBob, newcomer])
   \<and> userActivePublicComplaints [sixVotes] newcomer = [sixVotes] \<and> votes sixVotes = 6
   \<and> points (currentUserStats [adminBob, newcomer] [sixVotes] newcomer) = 30
   \<and> COMMUNITY_VOICE \<in> set (badges (gamified [sixVotes] newcomer))
   \<and> INFLUENCER \<notin> set (badges (gamified [sixVotes] newcomer))
   \<and> points (gamified [] newcomer) = 0"
proof -
  have m: "newcomer \<in> set [adminBob, newcomer]" by simp
  have r: "role newcomer = USER" and p: "points newcomer = 0" and b: "badges newcomer = []"
    by (simp_all add: newcomer_def)
  have d: "distinct (map id_u [adminBob, newcomer])" by (simp add: adminBob_def newcomer_def)
  have a: "userActivePublicComplaints [sixVotes] newcomer = [sixVotes]"
    by (simp add: userActivePublicComplaints_def sixVotes_def newcomer_def)
  have e: "userActivePublicComplaints [] newcomer = []"
    by (simp add: userActivePublicComplaints_def)
  have v: "votes sixVotes = 6" by (simp add: sixVotes_def)
  from C6_displayed_points [of "[adminBob, newcomer]" "[sixVotes]"] m r
  have one: "(distinct (map id_u [adminBob, newcomer]) \<longrightarrow>
          currentUserStats [adminBob, newcomer] [sixVotes] newcomer = gamified [sixVotes] newcomer)"
    and two: "(\<forall>c. points newcomer = 0 \<and> userActivePublicComplaints [sixVotes] newcomer = [c] \<and> votes c = 6 \<longrightarrow>
            points (gamified [sixVotes] newcomer) = 30
          \<and> COMMUNITY_VOICE \<in> set (badges (gamified [sixVotes] newcomer))
          \<and> (INFLUENCER \<in> set (badges (gamified [sixVotes] newcomer)) \<longleftrightarrow> INFLUENCER \<in> set (badges newcomer)))"
    by blast+
  from two p a v have three: "points (gamified [sixVotes] newcomer) = 30"
      "COMMUNITY_VOICE \<in> set (badges (gamified [sixVotes] newcomer))"
      "INFLUENCER \<notin> set (badges (gamified [sixVotes] newcomer))"
    using b by auto
  from C6_displayed_points [of "[adminBob, newcomer]" "[]"] m r e p
  have four: "points (gamified [] newcomer) = 0" by auto
  from one d three four m r p a v show ?thesis by simp
qed

section \<open>Analytics\<close>

lemma pow2_powi: "pow2 e = 2 powi e"
  by (simp add: pow2_def power_int_def inverse_eq_divide power_one_over)

lemma pow2_pos: "0 < pow2 e"
  by (simp add: pow2_powi)

lemma pow2_add: "pow2 (a + b) = pow2 a * pow2 b"
  by (simp add: pow2_powi power_int_add)

lemma pow2_diff: "pow2 (a - b) = pow2 a / pow2 b"
  by (simp add: pow2_powi power_int_diff)

lemma pow2_mono: "a \<le> b \<Longrightarrow> pow2 a \<le> pow2 b"
  by (simp add: pow2_powi power_int_increasing)

lemma pow2_nat: "0 \<le> e \<Longrightarrow> pow2 e = of_int (2 ^ nat e)"
  by (simp add: pow2_def)

lemma bitlen_pow2_bounds:
  assumes "0 < a"
  shows "pow2 (bitlen a - 1) \<le> of_int a" "(of_int a :: rat) < pow2 (bitlen a)"
proof -
  from assms have ge1: "1 \<le> bitlen a" by (auto simp: bitlen_alt_def)
  from bitlen_bounds[OF assms] have b: "2 ^ nat (bitlen a - 1) \<le> a" "a < 2 ^ nat (bitlen a)"
    by simp_all
  have "pow2 (bitlen a - 1) = of_int (2 ^ nat (bitlen a - 1))" using ge1 by (simp add: pow2_nat)
  also have "\<dots> \<le> of_int a" using b(1) by (simp only: of_int_le_iff)
  finally show "pow2 (bitlen a - 1) \<le> of_int a" .
  have "(of_int a :: rat) < of_int (2 ^ nat (bitlen a))" using b(2) by (simp only: of_int_less_iff)
  also have "\<dots> = pow2 (bitlen a)" using ge1 by (simp add: pow2_nat)
  finally show "(of_int a :: rat) < pow2 (bitlen a)" .
qed

lemma ilog2_bounds:
  assumes "0 < x"
  shows "pow2 (ilog2 x) \<le> x" "x < pow2 (ilog2 x + 1)"
proof -
  obtain a b where q: "quotient_of x = (a, b)" by (cases "quotient_of x")
  then have b: "0 < b" and x: "x = of_int a / of_int b"
    by (simp_all add: quotient_of_denom_pos quotient_of_div)
  from assms x b have a: "0 < a" by (simp add: zero_less_divide_iff)
  define d where "d = bitlen a - bitlen b"
  have il: "ilog2 x = (if pow2 d \<le> x then d else d - 1)"
    by (simp add: ilog2_def q d_def Let_def)
  note A = bitlen_pow2_bounds[OF a] and B = bitlen_pow2_bounds[OF b]
  have bpos: "(0::rat) < of_int b" using b by simp
  have up: "x < pow2 (d + 1)"
  proof -
    have "x < pow2 (bitlen a) / of_int b" unfolding x using A(2) bpos
      by (simp add: divide_strict_right_mono)
    also have "\<dots> \<le> pow2 (bitlen a) / pow2 (bitlen b - 1)"
      using B(1) pow2_pos[of "bitlen b - 1"] pow2_pos[of "bitlen a"]
      by (simp add: frac_le)
    also have "\<dots> = pow2 (d + 1)" by (simp add: d_def pow2_diff[symmetric] algebra_simps)
    finally show ?thesis .
  qed
  have lo: "pow2 (d - 1) \<le> x"
  proof -
    have "pow2 (d - 1) = pow2 (bitlen a - 1) / pow2 (bitlen b)"
      by (simp add: d_def pow2_diff[symmetric] algebra_simps)
    also have "\<dots> \<le> of_int a / pow2 (bitlen b)"
      using A(1) pow2_pos[of "bitlen b"] by (simp add: divide_right_mono)
    also have "\<dots> \<le> of_int a / of_int b"
      using B(2) bpos a by (simp add: frac_le)
    finally show ?thesis by (simp add: x)
  qed
  show "pow2 (ilog2 x) \<le> x" using il lo by (simp split: if_splits)
  show "x < pow2 (ilog2 x + 1)" using il up by (auto split: if_splits)
qed

lemma roundEven_err: "\<bar>of_int (roundEven y) - y\<bar> \<le> 1 / 2"
proof -
  have "of_int \<lfloor>y\<rfloor> \<le> y" "y < of_int \<lfloor>y\<rfloor> + 1" by linarith+
  then show ?thesis by (auto simp add: roundEven_def Let_def)
qed

lemma roundEven_int: "roundEven (of_int k) = k"
  by (simp add: roundEven_def)

lemma fl_err: "\<bar>fl x - x\<bar> \<le> \<bar>x\<bar> / 2 ^ 53"
proof (cases "x = 0")
  case True
  then show ?thesis by (simp add: fl_def)
next
  case False
  define e where "e = ilog2 \<bar>x\<bar> - 52"
  define y where "y = \<bar>x\<bar> / pow2 e"
  have ax: "0 < \<bar>x\<bar>" using False by simp
  from ilog2_bounds(1)[OF ax] have "pow2 (e + 52) \<le> \<bar>x\<bar>" by (simp add: e_def)
  moreover have "pow2 52 = 2 ^ 52" by (simp add: pow2_def)
  ultimately have lo: "pow2 e * 2 ^ 52 \<le> \<bar>x\<bar>" by (simp only: pow2_add)
  have fl: "fl x = sgn x * of_int (roundEven y) * pow2 e"
    using False by (simp add: fl_def Let_def e_def y_def)
  have xy: "x = sgn x * y * pow2 e"
    using pow2_pos[of e] by (simp add: y_def sgn_mult_abs flip: mult_sgn_abs)
  have "fl x - x = sgn x * (of_int (roundEven y) - y) * pow2 e"
    by (subst fl, subst (2) xy) (simp add: algebra_simps)
  then have "\<bar>fl x - x\<bar> = \<bar>of_int (roundEven y) - y\<bar> * pow2 e"
    using False pow2_pos[of e] by (simp add: abs_mult abs_sgn_eq)
  also have "\<dots> \<le> (1 / 2) * pow2 e"
    using roundEven_err[of y] pow2_pos[of e] by (simp add: mult_right_mono)
  also have "\<dots> \<le> \<bar>x\<bar> / 2 ^ 53" using lo by simp
  finally show ?thesis .
qed

lemma fl_zero: "fl 0 = 0"
  by (simp add: fl_def)

lemma fl_bounds:
  assumes "0 \<le> x"
  shows "0 \<le> fl x" "fl x \<le> 2 * x"
proof -
  have h: "\<bar>fl x - x\<bar> \<le> \<bar>x\<bar> / 2 ^ 53" by (rule fl_err)
  have "\<bar>x\<bar> / 2 ^ 53 \<le> \<bar>x\<bar>" by (simp add: divide_le_eq)
  with h assms show "0 \<le> fl x" "fl x \<le> 2 * x" by linarith+
qed

lemma floor_near:
  fixes v w :: rat and q D :: int
  assumes D: "0 < D" and N: "N = q * D + m" and m: "1 \<le> m" "m \<le> D - 1"
    and w: "w = of_int N / of_int D" and d: "\<bar>v - w\<bar> < 1 / of_int D"
  shows "\<lfloor>v\<rfloor> = q" and "\<lfloor>w\<rfloor> = q"
proof -
  have Dp: "(0::rat) < of_int D" using D by simp
  have wq: "w = of_int q + of_int m / of_int D"
    using Dp by (simp add: w N field_simps)
  have m1: "1 / of_int D \<le> (of_int m :: rat) / of_int D"
    using m(1) Dp by (simp add: divide_right_mono)
  have m2: "(of_int m :: rat) / of_int D \<le> 1 - 1 / of_int D"
  proof -
    have "(of_int m :: rat) \<le> of_int D - 1" using m(2) by (metis of_int_1 of_int_diff of_int_le_iff)
    then have "(of_int m :: rat) / of_int D \<le> (of_int D - 1) / of_int D"
      using Dp by (simp add: divide_right_mono)
    also have "\<dots> = 1 - 1 / of_int D" using Dp by (simp add: field_simps)
    finally show ?thesis .
  qed
  from d have "v - w < 1 / of_int D" "w - v < 1 / of_int D" by (simp_all add: abs_less_iff)
  with wq m1 m2 have "of_int q \<le> v" "v < of_int q + 1" by linarith+
  then show "\<lfloor>v\<rfloor> = q" by (simp add: floor_unique)
  have "0 < 1 / (of_int D :: rat)" using Dp by simp
  with wq m1 m2 have "of_int q \<le> w" "w < of_int q + 1" by linarith+
  then show "\<lfloor>w\<rfloor> = q" by (simp add: floor_unique)
qed

lemma floor_near_eq:
  fixes v w :: rat and N D :: int
  assumes D: "0 < D" and nd: "\<not> D dvd N"
    and w: "w = of_int N / of_int D" and d: "\<bar>v - w\<bar> < 1 / of_int D"
  shows "\<lfloor>v\<rfloor> = \<lfloor>w\<rfloor>"
proof -
  have N: "N = (N div D) * D + N mod D" by simp
  have "N mod D \<noteq> 0" using nd by (simp add: dvd_eq_mod_eq_0)
  moreover have "0 \<le> N mod D" "N mod D < D" using D by simp_all
  ultimately have m: "1 \<le> N mod D" "N mod D \<le> D - 1" by linarith+
  from floor_near[OF D N m w d] show ?thesis by simp
qed

lemma rate_error:
  fixes r t :: nat
  assumes "r \<le> t" "0 < t"
  shows "\<bar>fl (fl (of_nat r / of_nat t) * 100) - 100 * (of_nat r / of_nat t)\<bar> \<le> 300 / 2 ^ 53"
proof -
  define x :: rat where "x = of_nat r / of_nat t"
  define u :: rat where "u = 1 / 2 ^ 53"
  have x: "0 \<le> x" "x \<le> 1" using assms by (simp_all add: x_def)
  have u: "0 \<le> u" by (simp add: u_def)
  have err: "\<bar>fl y - y\<bar> \<le> \<bar>y\<bar> * u" for y
    using fl_err[of y] by (simp add: u_def)
  define a where "a = fl x"
  have a: "0 \<le> a" "a \<le> 2" using fl_bounds[OF x(1)] x(2) by (simp_all add: a_def)
  have "\<bar>x\<bar> * u \<le> 1 * u" using x u by (intro mult_right_mono) simp_all
  with err[of x] have e1: "\<bar>a - x\<bar> \<le> u" by (simp add: a_def)
  have "\<bar>a * 100\<bar> * u \<le> 200 * u" using a u by (intro mult_right_mono) simp_all
  with err[of "a * 100"] have e2: "\<bar>fl (a * 100) - a * 100\<bar> \<le> 200 * u" by simp
  from e1 e2 have "\<bar>fl (a * 100) - 100 * x\<bar> \<le> 300 * u" by linarith
  then show ?thesis by (simp add: a_def x_def u_def)
qed

lemma rate_correct:
  fixes r t :: nat
  assumes "r \<le> t" "0 < t" "t < 2 ^ 32"
    and tie: "\<not> (2 * int t) dvd (200 * int r + int t)"
  shows "Math_round (fl (fl (of_nat r / of_nat t) * 100))
           = \<lfloor>100 * (of_nat r / of_nat t :: rat) + 1 / 2\<rfloor>"
proof -
  define v where "v = fl (fl (of_nat r / of_nat t) * 100) + 1 / 2"
  define w :: rat where "w = 100 * (of_nat r / of_nat t) + 1 / 2"
  have D: "0 < 2 * int t" using assms(2) by simp
  have w: "w = of_int (200 * int r + int t) / of_int (2 * int t)"
    using assms(2) by (simp add: w_def field_simps)
  have "\<bar>v - w\<bar> \<le> 300 / 2 ^ 53" using rate_error[OF assms(1,2)] by (simp add: v_def w_def)
  also have "\<dots> < 1 / 2 ^ 33" by simp
  also have "\<dots> \<le> 1 / of_int (2 * int t)"
  proof -
    have "2 * int t \<le> 2 ^ 33" using assms(3) by simp
    then have "(of_int (2 * int t) :: rat) \<le> of_int (2 ^ 33)" by (simp only: of_int_le_iff)
    moreover have "(0::rat) < of_int (2 * int t)" using D by (simp only: of_int_0_less_iff)
    ultimately show ?thesis by (simp add: frac_le)
  qed
  finally have d: "\<bar>v - w\<bar> < 1 / of_int (2 * int t)" .
  from floor_near_eq[OF D tie w d] show ?thesis by (simp add: Math_round_def v_def w_def)
qed

lemma fl_int:
  assumes "0 \<le> n" "n < 2 ^ 53"
  shows "fl (of_int n) = of_int n"
proof (cases "n = 0")
  case True
  then show ?thesis by (simp add: fl_zero)
next
  case False
  define x :: rat where "x = of_int n"
  have xpos: "0 < x" using assms(1) False by (simp add: x_def)
  define e where "e = ilog2 x - 52"
  have "x < pow2 53"
  proof -
    have "(of_int n :: rat) < of_int (2 ^ 53)" using assms(2) by (simp only: of_int_less_iff)
    then show ?thesis by (simp add: x_def pow2_def)
  qed
  with ilog2_bounds(1)[OF xpos] have "pow2 (ilog2 x) < pow2 53" by simp
  then have "ilog2 x < 53" using pow2_mono[of 53 "ilog2 x"] by (cases "ilog2 x < 53") simp_all
  then have e: "e \<le> 0" by (simp add: e_def)
  define k where "k = nat (- e)"
  have pe: "pow2 e = 1 / 2 ^ k"
  proof (cases "e = 0")
    case True
    then show ?thesis by (simp add: pow2_def k_def)
  next
    case False
    with e show ?thesis by (simp add: pow2_def k_def)
  qed
  have y: "x / pow2 e = of_int (n * 2 ^ k)" by (simp add: pe x_def)
  have "fl x = sgn x * of_int (roundEven (\<bar>x\<bar> / pow2 e)) * pow2 e"
    using xpos by (simp add: fl_def Let_def e_def)
  also have "\<dots> = of_int (roundEven (x / pow2 e)) * pow2 e" using xpos by simp
  also have "\<dots> = of_int (n * 2 ^ k) * pow2 e" by (simp only: y roundEven_int)
  also have "\<dots> = x" by (simp add: pe x_def)
  finally show ?thesis by (simp add: x_def)
qed

lemma foldl_resolution_exact:
  assumes "0 \<le> acc" "\<forall>c \<in> set cs. 0 \<le> resolutionTime c"
    and "acc + sum_list (map resolutionTime cs) < 2 ^ 53"
  shows "foldl (\<lambda>acc c. case resolvedAt c of
                       Some r \<Rightarrow> fl (acc + fl (of_int r - of_int (createdAt c)))
                     | None \<Rightarrow> acc) (of_int acc) cs
         = of_int (acc + sum_list (map resolutionTime cs))"
  using assms
proof (induction cs arbitrary: acc)
  case Nil
  then show ?case by simp
next
  case (Cons c cs)
  have rest: "0 \<le> sum_list (map resolutionTime cs)"
    using Cons.prems(2) by (intro sum_list_nonneg) auto
  have d0: "0 \<le> resolutionTime c" using Cons.prems(2) by simp
  show ?case
  proof (cases "resolvedAt c")
    case None
    then have "resolutionTime c = 0" by (simp add: resolutionTime_def)
    with None Cons.IH[of acc] Cons.prems show ?thesis by simp
  next
    case (Some r)
    then have rt: "resolutionTime c = r - createdAt c" by (simp add: resolutionTime_def)
    have small: "r - createdAt c < 2 ^ 53" "acc + (r - createdAt c) < 2 ^ 53"
      using Cons.prems(1,3) rest d0 rt by simp_all
    have "fl (of_int r - of_int (createdAt c)) = of_int (r - createdAt c)"
      using fl_int[of "r - createdAt c"] d0 rt small by simp
    moreover have "fl (of_int acc + of_int (r - createdAt c)) = of_int (acc + (r - createdAt c))"
      using fl_int[of "acc + (r - createdAt c)"] d0 rt small Cons.prems(1) by simp
    ultimately have step: "fl (of_int acc + fl (of_int r - of_int (createdAt c)))
        = of_int (acc + (r - createdAt c))" by simp
    let ?f = "\<lambda>acc c. case resolvedAt c of
                       Some r \<Rightarrow> fl (acc + fl (of_int r - of_int (createdAt c)))
                     | None \<Rightarrow> acc"
    have ih: "foldl ?f (of_int (acc + (r - createdAt c))) cs
         = of_int ((acc + (r - createdAt c)) + sum_list (map resolutionTime cs))"
      using Cons.prems d0 rt by (intro Cons.IH) (simp_all add: algebra_simps)
    have "foldl ?f (of_int acc) (c # cs)
            = foldl ?f (fl (of_int acc + fl (of_int r - of_int (createdAt c)))) cs"
      using Some by simp
    also have "\<dots> = foldl ?f (of_int (acc + (r - createdAt c))) cs" by (simp only: step)
    also note ih
    also have "(acc + (r - createdAt c)) + sum_list (map resolutionTime cs)
        = acc + sum_list (map resolutionTime (c # cs))" using rt by simp
    finally show ?thesis .
  qed
qed

lemma totalResolutionTime_exact:
  assumes "\<forall>c \<in> set cs. 0 \<le> resolutionTime c" "sum_list (map resolutionTime cs) < 2 ^ 53"
  shows "totalResolutionTime cs = of_int (sum_list (map resolutionTime cs))"
  using foldl_resolution_exact[of 0 cs] assms by (simp add: totalResolutionTime_def)

lemma toFixed1_nonneg_cong:
  "0 \<le> x \<Longrightarrow> 0 \<le> y \<Longrightarrow> \<lfloor>10 * x + 1 / 2\<rfloor> = \<lfloor>10 * y + 1 / 2\<rfloor> \<Longrightarrow> toFixed1 x = toFixed1 y"
  by (simp add: toFixed1_def)

lemma days_error:
  fixes A :: rat
  assumes A: "0 \<le> A"
  shows "0 \<le> fl (fl (fl A / 3600000) / 24)"
    and "\<bar>fl (fl (fl A / 3600000) / 24) - A / 86400000\<bar> \<le> 7 * (A / 2 ^ 53) / 86400000"
proof -
  define u :: rat where "u = 1 / 2 ^ 53"
  have u: "0 \<le> u" by (simp add: u_def)
  have err: "\<bar>fl y - y\<bar> \<le> y * u" if "0 \<le> y" for y
    using fl_err[of y] that by (simp add: u_def)
  define p where "p = A * u"
  define h1 where "h1 = fl A"
  define h2 where "h2 = fl (h1 / 3600000)"
  define h3 where "h3 = fl (h2 / 24)"
  have h1: "0 \<le> h1" "h1 \<le> 2 * A" using fl_bounds[OF A] by (simp_all add: h1_def)
  have e1: "\<bar>h1 - A\<bar> \<le> p" using err[OF A] by (simp add: h1_def p_def)
  have h1u: "h1 * u \<le> 2 * p" using mult_right_mono[OF h1(2) u] by (simp add: p_def)
  have q1: "0 \<le> h1 / 3600000" using h1(1) by simp
  have h2: "0 \<le> h2" "h2 \<le> 2 * (h1 / 3600000)" using fl_bounds[OF q1] by (simp_all add: h2_def)
  have e2: "\<bar>h2 - h1 / 3600000\<bar> \<le> h1 * u / 3600000" using err[OF q1] by (simp add: h2_def)
  have h2u: "h2 * u \<le> 2 * (h1 * u) / 3600000" using mult_right_mono[OF h2(2) u] by simp
  have q2: "0 \<le> h2 / 24" using h2(1) by simp
  have h3: "0 \<le> h3" using fl_bounds[OF q2] by (simp add: h3_def)
  have e3: "\<bar>h3 - h2 / 24\<bar> \<le> h2 * u / 24" using err[OF q2] by (simp add: h3_def)
  from e1 e2 e3 h1u h2u have "\<bar>h3 - A / 86400000\<bar> \<le> 7 * p / 86400000" by linarith
  then show "\<bar>fl (fl (fl A / 3600000) / 24) - A / 86400000\<bar> \<le> 7 * (A / 2 ^ 53) / 86400000"
    by (simp add: h3_def h2_def h1_def p_def u_def)
  from h3 show "0 \<le> fl (fl (fl A / 3600000) / 24)" by (simp add: h3_def h2_def h1_def)
qed

lemma filteredComplaints_not_deleted:
  "c \<in> set (filteredComplaints getFullYear getMonth year month complaints) \<Longrightarrow> deletedAt c = None"
  by (simp add: filteredComplaints_def Let_def)

lemma avg_correct:
  fixes T :: int and n :: nat
  assumes T: "0 \<le> T" "T < 2 ^ 49" and n: "0 < n"
    and tie: "\<not> (17280000 * int n) dvd (2 * T + 8640000 * int n)"
  shows "toFixed1 (fl (fl (fl (of_int T / of_nat n) / 3600000) / 24))
           = toFixed1 (of_int T / of_nat n / 86400000)"
proof -
  define A :: rat where "A = of_int T / of_nat n"
  define h3 where "h3 = fl (fl (fl A / 3600000) / 24)"
  have A: "0 \<le> A" using T(1) by (simp add: A_def)
  have np: "(0::rat) < of_nat n" using n by simp
  note de = days_error[OF A, folded h3_def]
  define v where "v = 10 * h3 + 1 / 2"
  define w where "w = 10 * (A / 86400000) + 1 / 2"
  have D: "0 < 17280000 * int n" using n by simp
  have w: "w = of_int (2 * T + 8640000 * int n) / of_int (17280000 * int n)"
    using np by (simp add: w_def A_def field_simps)
  have Tr: "(of_int T :: rat) < 2 ^ 49"
  proof -
    have "(of_int T :: rat) < of_int (2 ^ 49)" using T(2) by (simp only: of_int_less_iff)
    then show ?thesis by simp
  qed
  have An: "A * of_nat n = of_int T" using np by (simp add: A_def)
  have small: "14 * A / 2 ^ 53 < 1 / of_nat n"
  proof -
    have "14 * (A * of_nat n) < 2 ^ 53" using Tr by (simp add: An)
    then have "14 * A * of_nat n / 2 ^ 53 < 1" by simp
    then have "(14 * A / 2 ^ 53) * of_nat n < 1" by (simp add: field_simps)
    then show ?thesis using np by (simp add: pos_less_divide_eq)
  qed
  have eq: "v - w = 10 * (h3 - A / 86400000)" by (simp add: v_def w_def)
  have "\<bar>v - w\<bar> = \<bar>10 * (h3 - A / 86400000)\<bar>" by (simp only: eq)
  also have "\<dots> = 10 * \<bar>h3 - A / 86400000\<bar>" by (simp only: abs_mult abs_numeral)
  also have "\<dots> \<le> 10 * (7 * (A / 2 ^ 53) / 86400000)" using de(2) by simp
  also have "\<dots> = (14 * A / 2 ^ 53) / 17280000" by simp
  also have "\<dots> < (1 / of_nat n) / 17280000" using small by (simp add: divide_strict_right_mono)
  also have "\<dots> = 1 / of_int (17280000 * int n)" by simp
  finally have d: "\<bar>v - w\<bar> < 1 / of_int (17280000 * int n)" .
  from floor_near_eq[OF D tie w d] have "\<lfloor>10 * h3 + 1 / 2\<rfloor> = \<lfloor>10 * (A / 86400000) + 1 / 2\<rfloor>"
    by (simp add: v_def w_def)
  with de(1) A have "toFixed1 h3 = toFixed1 (A / 86400000)"
    by (intro toFixed1_nonneg_cong) simp_all
  then show ?thesis by (simp add: h3_def A_def)
qed

lemma toFixed1_zero: "toFixed1 (fl 0) = ''0.0''"
  by code_simp

lemma toFixed1_two: "toFixed1 (172800000 / 1 / 86400000) = ''2.0''"
  by code_simp

lemma analytics_rate:
  "resolutionRate (analyticsMetrics filtered) =
     (if 0 < length filtered
      then Math_round (fl (fl (of_nat (length (resolvedComplaints filtered)) / of_nat (length filtered)) * 100))
      else 0)"
  by (simp add: analyticsMetrics_def Let_def)

lemma analytics_days:
  "avgResolutionTimeDays (analyticsMetrics filtered) =
     toFixed1 (fl ((if 0 < length (resolvedComplaints filtered)
                    then fl (fl (totalResolutionTime (resolvedComplaints filtered)
                                 / of_nat (length (resolvedComplaints filtered))) / 3600000)
                    else 0) / 24))"
  by (simp add: analyticsMetrics_def Let_def)

lemma length_resolved_le: "length (resolvedComplaints filtered) \<le> length filtered"
  by (simp add: resolvedComplaints_def)

lemma rate_general:
  assumes "filtered \<noteq> []" "length filtered < 2 ^ 32"
    and "\<not> (2 * int (length filtered))
             dvd (200 * int (length (resolvedComplaints filtered)) + int (length filtered))"
  shows "resolutionRate (analyticsMetrics filtered)
           = Math_round (100 * (of_nat (length (resolvedComplaints filtered)) / of_nat (length filtered)))"
  using rate_correct[OF length_resolved_le[of filtered] _ assms(2,3)] assms(1)
  by (simp add: analytics_rate Math_round_def)

lemma days_general:
  assumes "resolvedComplaints filtered \<noteq> []"
    and "\<forall>c \<in> set (resolvedComplaints filtered). 0 \<le> resolutionTime c"
    and "sum_list (map resolutionTime (resolvedComplaints filtered)) < 2 ^ 49"
    and "\<not> (17280000 * int (length (resolvedComplaints filtered)))
             dvd (2 * sum_list (map resolutionTime (resolvedComplaints filtered))
                  + 8640000 * int (length (resolvedComplaints filtered)))"
  shows "avgResolutionTimeDays (analyticsMetrics filtered)
           = toFixed1 (of_int (sum_list (map resolutionTime (resolvedComplaints filtered)))
                       / of_nat (length (resolvedComplaints filtered)) / 86400000)"
proof -
  let ?R = "resolvedComplaints filtered"
  have nn: "0 \<le> sum_list (map resolutionTime ?R)" using assms(2) by (intro sum_list_nonneg) auto
  have "sum_list (map resolutionTime ?R) < 2 ^ 53" using assms(3) by simp
  from totalResolutionTime_exact[OF assms(2) this]
  have ex: "totalResolutionTime ?R = of_int (sum_list (map resolutionTime ?R))" .
  have n: "0 < length ?R" using assms(1) by simp
  from avg_correct[OF nn assms(3) n assms(4)] n ex show ?thesis
    by (simp add: analytics_days)
qed

lemma scenario:
  assumes "status c0 = RESOLVED" "resolvedAt c0 = Some (createdAt c0 + 2 * day_ms)"
    "status c1 \<noteq> RESOLVED"
  shows "resolutionRate (analyticsMetrics [c0, c1]) = 50"
    "avgResolutionTimeDays (analyticsMetrics [c0, c1]) = ''2.0''"
proof -
  have R: "resolvedComplaints [c0, c1] = [c0]" using assms by (simp add: resolvedComplaints_def)
  have rt: "resolutionTime c0 = 172800000" using assms(2) by (simp add: resolutionTime_def day_ms_def)
  have "resolutionRate (analyticsMetrics [c0, c1]) = Math_round (100 * (of_nat 1 / of_nat 2))"
    using rate_general[of "[c0, c1]"] by (simp add: R)
  also have "\<dots> = 50" by code_simp
  finally show "resolutionRate (analyticsMetrics [c0, c1]) = 50" .
  have "avgResolutionTimeDays (analyticsMetrics [c0, c1]) = toFixed1 (172800000 / 1 / 86400000)"
    using days_general[of "[c0, c1]"] by (simp add: R rt)
  then show "avgResolutionTimeDays (analyticsMetrics [c0, c1]) = ''2.0''"
    by (simp only: toFixed1_two)
qed

lemma rate_29_of_200: "Math_round (fl (fl (of_nat 29 / of_nat 200) * 100)) = 14"
  by code_simp

text \<open>
  With 29 of 200 complaints resolved, \<open>100 * 29 / 200\<close> is 14.5 and rounds to 15, in exact
  arithmetic and in doubles alike; the aggregator divides first, the double quotient
  29 / 200 times 100 is 14.499999999999998, and it returns 14.
\<close>

theorem C7_counterexample:
  "resolutionRate (analyticsMetrics (replicate 29 (resolvedSample 1700000000000 1700172800000)
                                       @ replicate 171 (pendingSample 1700000000001))) = 14
   \<and> Math_round (100 * (of_nat 29 / of_nat 200)) = 15
   \<and> Math_round (fl (fl (100 * of_nat 29) / of_nat 200)) = 15"
proof -
  have "resolvedComplaints (replicate 29 (resolvedSample 1700000000000 1700172800000)
                             @ replicate 171 (pendingSample 1700000000001))
        = replicate 29 (resolvedSample 1700000000000 1700172800000)"
    by (simp add: resolvedComplaints_def resolvedSample_def pendingSample_def)
  then have "resolutionRate (analyticsMetrics (replicate 29 (resolvedSample 1700000000000 1700172800000)
                                       @ replicate 171 (pendingSample 1700000000001)))
      = Math_round (fl (fl (of_nat 29 / of_nat 200) * 100))"
    by (simp add: analytics_rate)
  moreover have "Math_round (100 * (of_nat 29 / of_nat 200)) = 15" by code_simp
  moreover have "Math_round (fl (fl (100 * of_nat 29) / of_nat 200)) = 15" by code_simp
  ultimately show ?thesis by (simp only: rate_29_of_200 simp_thms)
qed

lemma quotient_in_Ints:
  fixes N D :: int
  assumes "D \<noteq> 0"
  shows "(of_int N / of_int D :: rat) \<in> \<int> \<longleftrightarrow> D dvd N"
proof
  assume "(of_int N / of_int D :: rat) \<in> \<int>"
  then obtain k :: int where "(of_int N / of_int D :: rat) = of_int k" by (auto elim: Ints_cases)
  then have "(of_int N :: rat) = of_int (k * D)" using assms by (simp add: field_simps)
  then have "N = k * D" by (simp only: of_int_eq_iff)
  then show "D dvd N" by simp
next
  assume "D dvd N"
  then obtain k where "N = D * k" unfolding dvd_def by blast
  then show "(of_int N / of_int D :: rat) \<in> \<int>" using assms by simp
qed

lemma rateTie_iff:
  assumes "0 < t"
  shows "rateTie r t \<longleftrightarrow> (100 * (of_nat r / of_nat t) + 1 / 2 :: rat) \<in> \<int>"
proof -
  have eq: "(100 * (of_nat r / of_nat t) + 1 / 2 :: rat)
          = of_int (200 * int r + int t) / of_int (2 * int t)"
    using assms by (simp add: field_simps)
  have nz: "2 * int t \<noteq> 0" using assms by simp
  show ?thesis unfolding rateTie_def eq using quotient_in_Ints[OF nz] by blast
qed

lemma daysTie_iff:
  assumes "resolved \<noteq> []"
  shows "daysTie (sum_list (map resolutionTime resolved)) (length resolved)
           \<longleftrightarrow> (10 * meanResolutionDays resolved + 1 / 2) \<in> \<int>"
proof -
  have n: "0 < length resolved" using assms by simp
  have eq: "10 * meanResolutionDays resolved + 1 / 2
          = of_int (2 * sum_list (map resolutionTime resolved) + 8640000 * int (length resolved))
            / of_int (17280000 * int (length resolved))"
    using n by (simp add: meanResolutionDays_def field_simps)
  have nz: "17280000 * int (length resolved) \<noteq> 0" using n by simp
  show ?thesis unfolding daysTie_def eq using quotient_in_Ints[OF nz] by blast
qed

text \<open>
  C7 (amended). On any list of complaints (in particular a non-deleted, period-filtered
  one), with the resolved complaints those of status Resolved that carry \<^verbatim>\<open>resolvedAt\<close>:
  the resolution rate is 0 for the empty list and otherwise
  \<^verbatim>\<open>Math.round\<close> of \<open>100 * resolvedCount / totalCount\<close>, provided that value is not
  exactly halfway between two integers (the list being shorter than \<open>2^32\<close>, as every
  array is); the average is \<^verbatim>\<open>'0.0'\<close> when no complaint is resolved and otherwise the
  mean of \<open>resolvedAt - createdAt\<close> over the resolved complaints, in days, written with one
  decimal, provided ten times the mean is not exactly halfway between two integers (no
  complaint being resolved before it was created, and the times summing to less than
  \<open>2^49\<close> ms). For a complaint resolved two days after its creation and an unresolved
  one, the rate is 50 and the average \<^verbatim>\<open>'2.0'\<close>.
\<close>

theorem C7_analytics_metrics:
  "total (analyticsMetrics filtered) = length filtered
   \<and> (filtered = [] \<longrightarrow> resolutionRate (analyticsMetrics filtered) = 0)
   \<and> (filtered \<noteq> [] \<and> length filtered < 2 ^ 32
        \<and> \<not> rateTie (length (resolvedComplaints filtered)) (length filtered) \<longrightarrow>
      resolutionRate (analyticsMetrics filtered)
        = Math_round (100 * (of_nat (length (resolvedComplaints filtered)) / of_nat (length filtered))))
   \<and> (resolvedComplaints filtered = [] \<longrightarrow> avgResolutionTimeDays (analyticsMetrics filtered) = ''0.0'')
   \<and> (resolvedComplaints filtered \<noteq> []
        \<and> (\<forall>c \<in> set (resolvedComplaints filtered). 0 \<le> resolutionTime c)
        \<and> sum_list (map resolutionTime (resolvedComplaints filtered)) < 2 ^ 49
        \<and> \<not> daysTie (sum_list (map resolutionTime (resolvedComplaints filtered)))
                      (length (resolvedComplaints filtered)) \<longrightarrow>
      avgResolutionTimeDays (analyticsMetrics filtered)
        = toFixed1 (meanResolutionDays (resolvedComplaints filtered)))
   \<and> (\<forall>c0 c1. status c0 = RESOLVED \<and> resolvedAt c0 = Some (createdAt c0 + 2 * day_ms)
               \<and> status c1 \<noteq> RESOLVED \<longrightarrow>
        resolutionRate (analyticsMetrics [c0, c1]) = 50
      \<and> avgResolutionTimeDays (analyticsMetrics [c0, c1]) = ''2.0'')"
proof (intro conjI impI allI)
  show "total (analyticsMetrics filtered) = length filtered"
    by (simp add: analyticsMetrics_def Let_def)
  show "resolutionRate (analyticsMetrics filtered) = 0" if "filtered = []"
    using that by (simp add: analytics_rate)
  show "resolutionRate (analyticsMetrics filtered)
        = Math_round (100 * (of_nat (length (resolvedComplaints filtered)) / of_nat (length filtered)))"
    if "filtered \<noteq> [] \<and> length filtered < 2 ^ 32
        \<and> \<not> rateTie (length (resolvedComplaints filtered)) (length filtered)"
    using that by (intro rate_general) (simp_all add: rateTie_def)
  show "avgResolutionTimeDays (analyticsMetrics filtered) = ''0.0''"
    if "resolvedComplaints filtered = []"
    using that by (simp add: analytics_days toFixed1_zero)
  show "avgResolutionTimeDays (analyticsMetrics filtered)
        = toFixed1 (meanResolutionDays (resolvedComplaints filtered))"
    if "resolvedComplaints filtered \<noteq> []
        \<and> (\<forall>c \<in> set (resolvedComplaints filtered). 0 \<le> resolutionTime c)
        \<and> sum_list (map resolutionTime (resolvedComplaints filtered)) < 2 ^ 49
        \<and> \<not> daysTie (sum_list (map resolutionTime (resolvedComplaints filtered)))
                      (length (resolvedComplaints filtered))"
    unfolding meanResolutionDays_def using that by (intro days_general) (simp_all add: daysTie_def)
next
  fix c0 c1 :: Complaint
  assume a: "status c0 = RESOLVED \<and> resolvedAt c0 = Some (createdAt c0 + 2 * day_ms)
               \<and> status c1 \<noteq> RESOLVED"
  then show "resolutionRate (analyticsMetrics [c0, c1]) = 50"
    by (intro scenario(1)) simp_all
  from a show "avgResolutionTimeDays (analyticsMetrics [c0, c1]) = ''2.0''"
    by (intro scenario(2)) simp_all
qed

theorem C7_witness:
  "resolvedComplaints oneOfThree = [resolvedSample 1700000000000 1700172800000]
   \<and> resolutionTime (resolvedSample 1700000000000 1700172800000) = 172800000
   \<and> \<not> rateTie 1 3 \<and> \<not> daysTie 172800000 1
   \<and> resolutionRate (analyticsMetrics oneOfThree) = 33
   \<and> avgResolutionTimeDays (analyticsMetrics oneOfThree) = ''2.0''
   \<and> resolutionRate (analyticsMetrics
        [resolvedSample 1700000000000 1700172800000, pendingSample 1700000000001]) = 50
   \<and> avgResolutionTimeDays (analyticsMetrics
        [resolvedSample 1700000000000 1700172800000, pendingSample 1700000000001]) = ''2.0''"
proof -
  have R: "resolvedComplaints oneOfThree = [resolvedSample 1700000000000 1700172800000]"
    by (simp add: oneOfThree_def resolvedComplaints_def resolvedSample_def pendingSample_def)
  have rt: "resolutionTime (resolvedSample 1700000000000 1700172800000) = 172800000"
    by (simp add: resolutionTime_def resolvedSample_def)
  have len: "length oneOfThree = 3" "oneOfThree \<noteq> []" by (simp_all add: oneOfThree_def)
  have t1: "\<not> rateTie 1 3" by (simp add: rateTie_def)
  have t2: "\<not> daysTie 172800000 1" by (simp add: daysTie_def)
  have m: "meanResolutionDays [resolvedSample 1700000000000 1700172800000] = 172800000 / 1 / 86400000"
    by (simp add: meanResolutionDays_def rt)
  have r33: "Math_round (100 * (of_nat 1 / of_nat 3)) = 33" by code_simp
  note inst = C7_analytics_metrics [of oneOfThree]
  from inst R len t1 have "resolutionRate (analyticsMetrics oneOfThree)
      = Math_round (100 * (of_nat 1 / of_nat 3))" by simp
  then have one: "resolutionRate (analyticsMetrics oneOfThree) = 33" by (simp only: r33)
  from inst R rt t2 have "avgResolutionTimeDays (analyticsMetrics oneOfThree)
      = toFixed1 (meanResolutionDays [resolvedSample 1700000000000 1700172800000])" by simp
  then have two: "avgResolutionTimeDays (analyticsMetrics oneOfThree) = ''2.0''"
    by (simp only: m toFixed1_two)
  have s: "status (resolvedSample 1700000000000 1700172800000) = RESOLVED
     \<and> resolvedAt (resolvedSample 1700000000000 1700172800000)
         = Some (createdAt (resolvedSample 1700000000000 1700172800000) + 2 * day_ms)
     \<and> status (pendingSample 1700000000001) \<noteq> RESOLVED"
    by (simp add: resolvedSample_def pendingSample_def day_ms_def)
  from inst s have three: "resolutionRate (analyticsMetrics
        [resolvedSample 1700000000000 1700172800000, pendingSample 1700000000001]) = 50
     \<and> avgResolutionTimeDays (analyticsMetrics
        [resolvedSample 1700000000000 1700172800000, pendingSample 1700000000001]) = ''2.0''"
    by blast
  from R rt t1 t2 one two three show ?thesis by simp
qed

end
